theory Spec2Isabelle
  imports Main "HOL-Library.Log_Nat"
begin

section \<open>JavaScript numbers\<close>

text \<open>
  A JavaScript number is an IEEE 754 binary64 value. The numbers of this library are
  finite: a value is modelled as the rational it denotes, and an arithmetic operation as
  the exact operation followed by rounding to the nearest binary64 value, ties to the even
  significand (\<open>fl64\<close>). Integers of magnitude up to \<open>2 ^ 53\<close> are exact
  (lemma \<open>fl64_of_int_exact\<close>). The exponent range is modelled where a string is
  parsed (\<open>parseInt\<close>); the arithmetic below stays far inside it for the integers a
  table column holds. The columns the library computes with
  (\<^verbatim>\<open>token_limit\<close>, \<^verbatim>\<open>request_limit\<close>, \<^verbatim>\<open>remaining_*\<close>,
  \<^verbatim>\<open>window_minutes\<close>) are JSON integers and are kept as \<open>int\<close>.
\<close>

text \<open>Rounding a rational to the nearest integer, ties to even.\<close>

definition rne :: "rat \<Rightarrow> int" where
  "rne x = (let f = \<lfloor>x\<rfloor>; r = x - of_int f in
             if r < 1 / 2 then f
             else if 1 / 2 < r then f + 1
             else if even f then f else f + 1)"

text \<open>The binary exponent of a positive rational: \<open>2 powi e \<le> x < 2 powi (e + 1)\<close>.\<close>

definition ilog2 :: "rat \<Rightarrow> int" where
  "ilog2 x = (let (p, q) = quotient_of x; e = bitlen p - bitlen q in
                if 2 powi e \<le> x then e else e - 1)"

text \<open>Rounding to binary64: 53 significant bits.\<close>

definition fl64 :: "rat \<Rightarrow> rat" where
  "fl64 x = (if x = 0 then 0
             else let u = 2 powi (ilog2 \<bar>x\<bar> - 52) in of_int (rne (x / u)) * u)"

text \<open>
  \<^verbatim>\<open>a / b\<close> and \<^verbatim>\<open>a * b\<close> on numbers, and \<^verbatim>\<open>a - b\<close> on two integer-valued
  numbers (the result is integer-valued again). The library divides only by a limit it
  has tested to be non-zero, by 1000 and by 60.
\<close>

definition js_div :: "rat \<Rightarrow> rat \<Rightarrow> rat" where
  "js_div a b = fl64 (a / b)"

definition js_mul :: "rat \<Rightarrow> rat \<Rightarrow> rat" where
  "js_mul a b = fl64 (a * b)"

definition js_sub :: "int \<Rightarrow> int \<Rightarrow> int" where
  "js_sub a b = \<lfloor>fl64 (of_int a - of_int b)\<rfloor>"

text \<open>\<^verbatim>\<open>Math.round\<close>: the nearest integer, a tie going towards plus infinity.\<close>

definition Math_round :: "rat \<Rightarrow> int" where
  "Math_round x = \<lfloor>x + 1 / 2\<rfloor>"

text \<open>The decimal digits of a non-negative integer.\<close>

function show_digits :: "int \<Rightarrow> string" where
  "show_digits n = (if n < 10 then [''0123456789'' ! nat n]
                    else show_digits (n div 10) @ [''0123456789'' ! nat (n mod 10)])"
  by pat_completeness auto
termination
  by (relation "measure nat") auto

text \<open>
  Number to string, for an integer-valued number. JavaScript prints the shortest decimal
  \<open>s * 10 ^ m\<close> (\<open>s\<close> with \<open>k\<close> digits, \<open>k\<close> least) that rounds to the number, the
  one closest to it when several do and the one with even \<open>s\<close> on a tie.
  \<open>pick_decimal x k\<close> is that decimal for \<open>k\<close> digits, if one rounds to \<open>x\<close>: only the
  two neighbours of \<open>x\<close> can. At most 17 digits are needed, tried from 1 upwards; an
  integer up to \<open>2 ^ 53\<close> is its own shortest decimal, every integer near it being a
  number itself. Below \<open>10 ^ 21\<close> the digits are printed in full, from there on in
  exponent notation.
\<close>

definition pick_decimal :: "int \<Rightarrow> nat \<Rightarrow> int option" where
  "pick_decimal x k =
     (let p = 10 ^ (length (show_digits x) - k);
          lo = (x div p) * p;
          hi = lo + p;
          vlo = (fl64 (of_int lo) = of_int x);
          vhi = (fl64 (of_int hi) = of_int x)
      in if vlo \<and> vhi then
           (if x - lo < hi - x then Some lo
            else if hi - x < x - lo then Some hi
            else if even (x div p) then Some lo else Some hi)
         else if vlo then Some lo
         else if vhi then Some hi
         else None)"

fun search_decimal :: "int \<Rightarrow> nat \<Rightarrow> nat \<Rightarrow> int" where
  "search_decimal x k 0 = x"
| "search_decimal x k (Suc fuel) =
     (case pick_decimal x k of
        Some c \<Rightarrow> c
      | None \<Rightarrow> search_decimal x (Suc k) fuel)"

definition shortest_decimal :: "int \<Rightarrow> int" where
  "shortest_decimal x = (if x \<le> 2 ^ 53 then x else search_decimal x 1 17)"

definition number_to_string :: "int \<Rightarrow> string" where
  "number_to_string i =
     (if i = 0 then ''0''
      else (if i < 0 then ''-'' else []) @
        (let c = shortest_decimal \<bar>i\<bar>;
             ds = show_digits c
         in if c < 10 ^ 21 then ds
            else (let s = rev (dropWhile (\<lambda>d. d = CHR ''0'') (rev ds))
                  in take 1 s @ (if length s > 1 then ''.'' @ drop 1 s else []) @
                     ''e+'' @ show_digits (int (length ds) - 1))))"

text \<open>
  \<^verbatim>\<open>x.toFixed(f)\<close>: behind a minus sign when \<open>x < 0\<close>, for \<open>\<bar>x\<bar> < 10 ^ 21\<close> the
  integer \<open>n\<close> with \<open>n / 10 ^ f\<close> nearest to \<open>\<bar>x\<bar>\<close> (the larger one on a tie),
  printed with \<open>f\<close> digits after the point; from \<open>10 ^ 21\<close> on (where a number is an
  integer) the number printed as a string.
\<close>

definition toFixed :: "nat \<Rightarrow> rat \<Rightarrow> string" where
  "toFixed f x =
     (let n = \<lfloor>\<bar>x\<bar> * 10 ^ f + 1 / 2\<rfloor>;
          m = show_digits n;
          m' = (if 10 ^ 21 \<le> \<bar>x\<bar> then number_to_string \<lfloor>\<bar>x\<bar>\<rfloor>
                else if f = 0 then m
                else let z = replicate (f + 1 - length m) (CHR ''0'') @ m;
                         k = length z
                     in take (k - f) z @ ''.'' @ drop (k - f) z)
      in (if x < 0 then ''-'' else []) @ m')"

text \<open>
  Values of the user interface's own objects, whose fields are not typed by a table:
  \<^verbatim>\<open>limit.id\<close> and \<^verbatim>\<open>limit.limit\<close>.
\<close>

datatype js_value = JUndefined | JNull | JNumber int | JString string

text \<open>
  What \<^verbatim>\<open>parseInt\<close> returns: \<^verbatim>\<open>NaN\<close>, an integer-valued number, or an infinity
  (for a run of digits whose value rounds beyond the largest number, \<open>2 ^ 1024\<close> and up).
\<close>

datatype js_number = NaN | Num int | Infinity | MinusInfinity

text \<open>Strings are ASCII; case conversion touches the 26 letters.\<close>

definition toLowerCase_char :: "char \<Rightarrow> char" where
  "toLowerCase_char c =
     (case map_of (zip ''ABCDEFGHIJKLMNOPQRSTUVWXYZ'' ''abcdefghijklmnopqrstuvwxyz'') c of
        None \<Rightarrow> c | Some d \<Rightarrow> d)"

definition toUpperCase_char :: "char \<Rightarrow> char" where
  "toUpperCase_char c =
     (case map_of (zip ''abcdefghijklmnopqrstuvwxyz'' ''ABCDEFGHIJKLMNOPQRSTUVWXYZ'') c of
        None \<Rightarrow> c | Some d \<Rightarrow> d)"

definition toLowerCase :: "string \<Rightarrow> string" where
  "toLowerCase s = map toLowerCase_char s"

text \<open>
  \<^verbatim>\<open>parseInt(v)\<close> with no radix: the argument is converted to a string; leading
  white space is skipped, a sign is read, a prefix \<^verbatim>\<open>0x\<close> or \<^verbatim>\<open>0X\<close> selects
  radix 16, and the longest run of digits is the result, \<^verbatim>\<open>NaN\<close> when it is empty.
\<close>

definition js_to_string :: "js_value \<Rightarrow> string" where
  "js_to_string v =
     (case v of JUndefined \<Rightarrow> ''undefined'' | JNull \<Rightarrow> ''null''
      | JNumber n \<Rightarrow> number_to_string n | JString s \<Rightarrow> s)"

definition is_white_space :: "char \<Rightarrow> bool" where
  "is_white_space c \<longleftrightarrow> c \<in> set [CHR 0x09, CHR 0x0A, CHR 0x0B, CHR 0x0C, CHR 0x0D, CHR '' '']"

definition digit_value :: "int \<Rightarrow> char \<Rightarrow> int option" where
  "digit_value radix c =
     (case map_of (zip ''0123456789abcdef'' [0 .. 15]) (toLowerCase_char c) of
        None \<Rightarrow> None
      | Some d \<Rightarrow> if d < radix then Some d else None)"

definition digits_value :: "int \<Rightarrow> string \<Rightarrow> int" where
  "digits_value radix z =
     foldl (\<lambda>acc c. acc * radix + (case digit_value radix c of None \<Rightarrow> 0 | Some d \<Rightarrow> d)) 0 z"

definition parseInt :: "js_value \<Rightarrow> js_number" where
  "parseInt v =
     (let s = dropWhile is_white_space (js_to_string v);
          sign = (if s \<noteq> [] \<and> hd s = CHR ''-'' then - 1 else 1 :: int);
          s = (if s \<noteq> [] \<and> (hd s = CHR ''+'' \<or> hd s = CHR ''-'') then tl s else s);
          hex = (take 2 s = ''0x'' \<or> take 2 s = ''0X'');
          radix = (if hex then 16 else 10);
          s = (if hex then drop 2 s else s);
          z = takeWhile (\<lambda>c. digit_value radix c \<noteq> None) s;
          number = \<lfloor>fl64 (of_int (digits_value radix z))\<rfloor>
      in if z = [] then NaN
         else if 2 ^ 1024 \<le> number then (if sign < 0 then MinusInfinity else Infinity)
         else Num (sign * number))"

text \<open>
  Truthiness of a nullable number and of a nullable string: \<^verbatim>\<open>null\<close>, \<open>0\<close> and the
  empty string are falsy.
\<close>

definition truthy_num :: "int option \<Rightarrow> bool" where
  "truthy_num v = (case v of None \<Rightarrow> False | Some n \<Rightarrow> n \<noteq> 0)"

definition truthy_str :: "string option \<Rightarrow> bool" where
  "truthy_str v = (case v of None \<Rightarrow> False | Some s \<Rightarrow> s \<noteq> [])"

text \<open>
  The names every object literal inherits from \<^verbatim>\<open>Object.prototype\<close>: a lookup
  \<^verbatim>\<open>obj[key]\<close> with one of them finds the inherited member, which is truthy.
\<close>

definition object_prototype_keys :: "string list" where
  "object_prototype_keys =
     [''constructor'', ''__defineGetter__'', ''__defineSetter__'', ''hasOwnProperty'',
      ''__lookupGetter__'', ''__lookupSetter__'', ''isPrototypeOf'',
      ''propertyIsEnumerable'', ''toString'', ''valueOf'', ''__proto__'',
      ''toLocaleString'']"

section \<open>Awaited Supabase requests\<close>

text \<open>
  Every function of the rate-limit library (\<^verbatim>\<open>loadRateLimitsConfig\<close>,
  \<^verbatim>\<open>saveConfig\<close>, \<^verbatim>\<open>resetProviderLimits\<close>) awaits requests to the Supabase
  client inside a \<^verbatim>\<open>try\<close> block. An awaited request either rejects (the
  exception lands in the \<^verbatim>\<open>catch\<close> block) or resolves to an object with the
  fields \<^verbatim>\<open>data\<close> and \<^verbatim>\<open>error\<close>, each of which may be \<^verbatim>\<open>null\<close>.
\<close>

datatype 'a awaited = Rejects | Resolves 'a

record 'a query_result =
  data :: "'a option"
  error :: "string option"

section \<open>Rows of the two tables\<close>

text \<open>
  A row of \<^verbatim>\<open>rate_limit_configs\<close>. Columns that may be \<^verbatim>\<open>null\<close> are options;
  the limits and the window length are JSON integers. \<^verbatim>\<open>conf.id\<close> is the primary
  key (a UUID string).
\<close>

record rate_limit_config =
  conf_id :: string
  provider :: "string option"
  tier_name :: "string option"
  model_pattern :: "string option"
  token_limit :: "int option"
  request_limit :: "int option"
  reset_strategy :: "string option"
  window_minutes :: "int option"

text \<open>
  Modelled from the spec: the schema of \<^verbatim>\<open>rate_limit_status\<close> is not among the
  sources. A row has the six columns the library reads and writes and, after the spec's
  data model (an optional reset_anchor_timestamp, set by manual intervention) and the
  collector's notes, the nullable column \<^verbatim>\<open>reset_anchor_timestamp\<close>, which no
  function of the library names. There is one row per configuration (unique on
  \<^verbatim>\<open>config_id\<close>). Timestamps are ISO strings.
\<close>

record rate_limit_status =
  config_id :: string
  remaining_tokens :: "int option"
  remaining_requests :: "int option"
  window_start :: "string option"
  next_reset :: "string option"
  last_updated :: "string option"
  reset_anchor_timestamp :: "string option"

section \<open>loadRateLimitsConfig\<close>

text \<open>
  The structure the function returns: \<^verbatim>\<open>{ providers }\<close>, an object keyed by the
  lower-case provider name; each provider has a display name, an icon and the list of its
  limits. The same objects, edited by the user interface, come back to
  \<^verbatim>\<open>saveConfig\<close>, so \<^verbatim>\<open>limit.id\<close> and \<^verbatim>\<open>limit.limit\<close> are untyped values
  and \<^verbatim>\<open>windowHours\<close> may be missing. \<^verbatim>\<open>nextReset\<close> is \<open>None\<close> for
  \<^verbatim>\<open>undefined\<close> and for \<^verbatim>\<open>null\<close>.
\<close>

record backend_status =
  percentage :: int
  nextReset :: "string option"
  label :: string

record ui_limit =
  l_id :: js_value
  l_name :: string
  l_limit :: js_value
  l_unit :: string
  l_resetType :: "string option"
  l_windowHours :: "int option"
  l_resetTime :: string
  l_backendStatus :: "backend_status option"

text \<open>
  The icons are the emoji U+1F916 (robot), U+1F7E3 (purple circle), U+1F48E (gem) and
  U+1F50C (plug, the default); \<open>Inherited\<close> is the member of \<^verbatim>\<open>Object.prototype\<close>
  that the lookup \<^verbatim>\<open>providerIcons[conf.provider]\<close> finds for a provider named like
  one.
\<close>

datatype icon = Robot | PurpleCircle | Gem | Plug | Inherited string

record ui_provider =
  p_name :: string
  p_icon :: icon
  p_enabled :: bool
  p_limits :: "ui_limit list"

type_synonym providers = "string \<rightharpoonup> ui_provider"

record ui_config =
  providers :: providers

datatype js_error = TypeError | RequestRejected

definition providerIcons :: "string \<rightharpoonup> icon" where
  "providerIcons = [''OpenAI'' \<mapsto> Robot, ''Anthropic'' \<mapsto> PurpleCircle, ''Google'' \<mapsto> Gem]"

text \<open>\<^verbatim>\<open>providerIcons[conf.provider] || plug\<close>\<close>

definition icon_of :: "string \<Rightarrow> icon" where
  "icon_of name =
     (case providerIcons name of
        Some i \<Rightarrow> i
      | None \<Rightarrow> if name \<in> set object_prototype_keys then Inherited name else Plug)"

text \<open>
  The status map: \<^verbatim>\<open>new Map((statusResult.data || []).map(s => [s.config_id, s]))\<close>.
  A later row with the same key replaces an earlier one.
\<close>

definition statusMap :: "rate_limit_status list option \<Rightarrow> (string \<rightharpoonup> rate_limit_status)" where
  "statusMap status_data =
     map_of (rev (map (\<lambda>s. (config_id s, s))
                   (case status_data of None \<Rightarrow> [] | Some rows \<Rightarrow> rows)))"

text \<open>
  The locals of the loop body after the three-way branch. \<open>remaining\<close>,
  \<open>safeRemaining\<close> and \<open>used\<close> exist in the two limited branches only.
\<close>

record limit_locals =
  limitVal :: int
  limitUnit :: string
  remaining :: "int option"
  safeRemaining :: "int option"
  used :: "int option"
  percentage_local :: int
  usedLabel :: string

text \<open>\<^verbatim>\<open>status?.remaining_tokens ?? conf.token_limit\<close>, and the same for requests.\<close>

definition remaining_or ::
  "(rate_limit_status \<Rightarrow> int option) \<Rightarrow> rate_limit_status option \<Rightarrow> int \<Rightarrow> int" where
  "remaining_or field status lmt =
     (case status of
        None \<Rightarrow> lmt
      | Some s \<Rightarrow> (case field s of None \<Rightarrow> lmt | Some r \<Rightarrow> r))"

text \<open>\<^verbatim>\<open>Math.max(0, Math.min(remaining, limit))\<close>\<close>

definition clamp_remaining :: "int \<Rightarrow> int \<Rightarrow> int" where
  "clamp_remaining rem lmt = max 0 (min rem lmt)"

text \<open>\<^verbatim>\<open>Math.round((safeRemaining / limit) * 100)\<close>\<close>

definition percentage_of :: "int \<Rightarrow> int \<Rightarrow> int" where
  "percentage_of safe lmt = Math_round (js_mul (js_div (of_int safe) (of_int lmt)) 100)"

text \<open>\<^verbatim>\<open>Math.max(0, limit - remaining)\<close>\<close>

definition used_of :: "int \<Rightarrow> int \<Rightarrow> int" where
  "used_of lmt rem = max 0 (js_sub lmt rem)"

definition limit_view :: "rate_limit_config \<Rightarrow> rate_limit_status option \<Rightarrow> limit_locals" where
  "limit_view conf status =
     (if truthy_num (token_limit conf) then
        (let lmt = the (token_limit conf);
             rem = remaining_or remaining_tokens status lmt;
             safe = clamp_remaining rem lmt;
             u = used_of lmt rem
         in \<lparr> limitVal = lmt, limitUnit = ''tokens'',
              remaining = Some rem, safeRemaining = Some safe, used = Some u,
              percentage_local = percentage_of safe lmt,
              usedLabel = toFixed 1 (js_div (of_int u) 1000) @ ''k / '' @
                          toFixed 0 (js_div (of_int lmt) 1000) @ ''k'' \<rparr>)
      else if truthy_num (request_limit conf) then
        (let lmt = the (request_limit conf);
             rem = remaining_or remaining_requests status lmt;
             safe = clamp_remaining rem lmt;
             u = used_of lmt rem
         in \<lparr> limitVal = lmt, limitUnit = ''requests'',
              remaining = Some rem, safeRemaining = Some safe, used = Some u,
              percentage_local = percentage_of safe lmt,
              usedLabel = number_to_string u @ '' / '' @ number_to_string lmt \<rparr>)
      else
        \<lparr> limitVal = 0, limitUnit = ''requests'',
          remaining = None, safeRemaining = None, used = None,
          percentage_local = 100,
          usedLabel = ''Unlimited'' \<rparr>)"

text \<open>
  \<^verbatim>\<open>Math.round(conf.window_minutes / 60)\<close>; a \<^verbatim>\<open>null\<close> column counts as 0 in the
  division.
\<close>

definition windowHours_of :: "int option \<Rightarrow> int" where
  "windowHours_of wm =
     Math_round (js_div (of_int (case wm of None \<Rightarrow> 0 | Some m \<Rightarrow> m)) 60)"

text \<open>The object pushed onto \<^verbatim>\<open>limits\<close> for one configuration.\<close>

definition limit_entry :: "rate_limit_config \<Rightarrow> rate_limit_status option \<Rightarrow> ui_limit" where
  "limit_entry conf status =
     (let v = limit_view conf status in
      \<lparr> l_id = JString (conf_id conf),
        l_name = (if truthy_str (model_pattern conf) then the (model_pattern conf)
                  else ''All Models''),
        l_limit = JNumber (limitVal v),
        l_unit = limitUnit v,
        l_resetType = reset_strategy conf,
        l_windowHours = Some (windowHours_of (window_minutes conf)),
        l_resetTime = ''00:00'',
        l_backendStatus = Some
          \<lparr> percentage = percentage_local v,
            nextReset = (case status of None \<Rightarrow> None | Some s \<Rightarrow> next_reset s),
            label = usedLabel v \<rparr> \<rparr>)"

text \<open>
  The body of \<^verbatim>\<open>configs.forEach\<close>. \<^verbatim>\<open>conf.provider.toLowerCase()\<close> throws on a
  \<^verbatim>\<open>null\<close> provider. \<^verbatim>\<open>!providers[providerKey]\<close> is false for a key already
  added and for a key \<^verbatim>\<open>Object.prototype\<close> supplies; in the second case
  \<^verbatim>\<open>providers[providerKey].limits\<close> is \<^verbatim>\<open>undefined\<close> and \<^verbatim>\<open>push\<close> throws.
\<close>

definition add_config ::
  "(string \<rightharpoonup> rate_limit_status) \<Rightarrow> rate_limit_config \<Rightarrow> providers \<Rightarrow> js_error + providers"
where
  "add_config smap conf ps =
     (case provider conf of
        None \<Rightarrow> Inl TypeError
      | Some prov \<Rightarrow>
          (let providerKey = toLowerCase prov in
           case ps providerKey of
             Some p \<Rightarrow>
               Inr (ps(providerKey \<mapsto>
                 p\<lparr> p_limits := p_limits p @ [limit_entry conf (smap (conf_id conf))] \<rparr>))
           | None \<Rightarrow>
               if providerKey \<in> set object_prototype_keys then Inl TypeError
               else Inr (ps(providerKey \<mapsto>
                 \<lparr> p_name = prov @ (if truthy_str (tier_name conf)
                                     then '' '' @ the (tier_name conf) else []),
                   p_icon = icon_of prov,
                   p_enabled = True,
                   p_limits = [limit_entry conf (smap (conf_id conf))] \<rparr>))))"

fun forEach_config ::
  "(string \<rightharpoonup> rate_limit_status) \<Rightarrow> rate_limit_config list \<Rightarrow> providers \<Rightarrow> js_error + providers"
where
  "forEach_config smap [] ps = Inr ps"
| "forEach_config smap (conf # configs) ps =
     (case add_config smap conf ps of
        Inl e \<Rightarrow> Inl e
      | Inr ps' \<Rightarrow> forEach_config smap configs ps')"

text \<open>
  The \<^verbatim>\<open>try\<close> block: \<open>Inl\<close> is an exception thrown inside it, \<open>Inr\<close> its return
  value (\<open>None\<close> for \<^verbatim>\<open>null\<close>). \<^verbatim>\<open>Promise.all\<close> rejects when one of the two
  queries does. \<^verbatim>\<open>configs.forEach\<close> throws when \<^verbatim>\<open>configsResult.data\<close> is
  \<^verbatim>\<open>null\<close>.
\<close>

definition load_try ::
  "(rate_limit_config list query_result \<times> rate_limit_status list query_result) awaited \<Rightarrow>
   js_error + ui_config option"
where
  "load_try results =
     (case results of
        Rejects \<Rightarrow> Inl RequestRejected
      | Resolves (configsResult, statusResult) \<Rightarrow>
          if error configsResult \<noteq> None then Inr None
          else (case data configsResult of
                  None \<Rightarrow> Inl TypeError
                | Some configs \<Rightarrow>
                    (case forEach_config (statusMap (data statusResult)) configs Map.empty of
                       Inl e \<Rightarrow> Inl e
                     | Inr ps \<Rightarrow> Inr (Some \<lparr> providers = ps \<rparr>))))"

text \<open>The function: the \<^verbatim>\<open>catch\<close> block logs the exception and returns \<^verbatim>\<open>null\<close>.\<close>

definition loadRateLimitsConfig ::
  "(rate_limit_config list query_result \<times> rate_limit_status list query_result) awaited \<Rightarrow>
   ui_config option"
where
  "loadRateLimitsConfig results =
     (case load_try results of Inl e \<Rightarrow> None | Inr r \<Rightarrow> r)"

section \<open>saveConfig\<close>

text \<open>
  The object \<^verbatim>\<open>row\<close> that \<^verbatim>\<open>saveConfig\<close> builds in memory for one limit. The two
  limit fields hold \<^verbatim>\<open>null\<close> (\<open>None\<close>) or the number \<^verbatim>\<open>parseInt\<close> returned, which
  may be \<^verbatim>\<open>NaN\<close>. The field \<^verbatim>\<open>id\<close> is absent (\<open>None\<close>) for a new limit.
\<close>

record config_row =
  r_provider :: string
  r_tier_name :: string
  r_model_pattern :: string
  r_reset_strategy :: "string option"
  r_window_minutes :: int
  r_token_limit :: "js_number option"
  r_request_limit :: "js_number option"
  r_id :: "js_value option"

text \<open>\<^verbatim>\<open>typeof limit.id === 'string' && limit.id.startsWith('limit_')\<close>\<close>

definition isNew :: "js_value \<Rightarrow> bool" where
  "isNew v = (case v of JString s \<Rightarrow> take 6 s = ''limit_'' | _ \<Rightarrow> False)"

text \<open>
  \<^verbatim>\<open>providerKey.charAt(0).toUpperCase() + providerKey.slice(1)\<close>, then the six
  corrections of known keys, in the order of the source.
\<close>

definition capitalize :: "string \<Rightarrow> string" where
  "capitalize k = (case k of [] \<Rightarrow> [] | c # cs \<Rightarrow> toUpperCase_char c # cs)"

definition provider_of_key :: "string \<Rightarrow> string" where
  "provider_of_key providerKey =
     (let p = capitalize providerKey;
          p = (if providerKey = ''chatgpt'' then ''OpenAI'' else p);
          p = (if providerKey = ''openai'' then ''OpenAI'' else p);
          p = (if providerKey = ''claude'' then ''Anthropic'' else p);
          p = (if providerKey = ''anthropic'' then ''Anthropic'' else p);
          p = (if providerKey = ''gemini'' then ''Google'' else p);
          p = (if providerKey = ''google'' then ''Google'' else p)
      in p)"

text \<open>\<^verbatim>\<open>(limit.windowHours || 1) * 60\<close>: a missing or zero \<^verbatim>\<open>windowHours\<close> counts as 1.\<close>

definition window_minutes_of :: "int option \<Rightarrow> int" where
  "window_minutes_of wh =
     (let h = (case wh of None \<Rightarrow> 1 | Some h \<Rightarrow> if h = 0 then 1 else h)
      in \<lfloor>js_mul (of_int h) 60\<rfloor>)"

text \<open>The row for one limit of the provider stored under \<open>providerKey\<close>.\<close>

definition save_row :: "string \<Rightarrow> ui_limit \<Rightarrow> config_row" where
  "save_row providerKey lmt =
     \<lparr> r_provider = provider_of_key providerKey,
       r_tier_name = [],
       r_model_pattern = l_name lmt,
       r_reset_strategy = l_resetType lmt,
       r_window_minutes = window_minutes_of (l_windowHours lmt),
       r_token_limit = (if l_unit lmt = ''tokens'' then Some (parseInt (l_limit lmt)) else None),
       r_request_limit = (if l_unit lmt = ''tokens'' then None else Some (parseInt (l_limit lmt))),
       r_id = (if isNew (l_id lmt) then None else Some (l_id lmt)) \<rparr>"

text \<open>
  \<open>upsertData\<close> and \<open>keptIds\<close> after the two nested \<^verbatim>\<open>forEach\<close> loops over
  \<^verbatim>\<open>Object.entries(newConfig.providers)\<close>.
\<close>

definition upsertData :: "(string \<times> ui_provider) list \<Rightarrow> config_row list" where
  "upsertData entries =
     concat (map (\<lambda>(providerKey, prov). map (save_row providerKey) (p_limits prov)) entries)"

definition keptIds :: "(string \<times> ui_provider) list \<Rightarrow> js_value list" where
  "keptIds entries =
     concat (map (\<lambda>(providerKey, prov).
                    map l_id (filter (\<lambda>lmt. \<not> isNew (l_id lmt)) (p_limits prov))) entries)"

text \<open>
  The argument of \<^verbatim>\<open>saveConfig\<close>: \<^verbatim>\<open>null\<close>, or an object whose
  \<^verbatim>\<open>providers\<close> field is missing or lists the providers by key, in the order
  \<^verbatim>\<open>Object.entries\<close> gives them. The requests the function sends after its first
  query are its effect.
\<close>

record new_config =
  nc_providers :: "(string \<times> ui_provider) list option"

text \<open>
  The upsert sends its rows as JSON (\<^verbatim>\<open>JSON.stringify\<close>): a number field that is
  \<^verbatim>\<open>NaN\<close> or infinite is written as \<^verbatim>\<open>null\<close>, and a field whose value is
  \<^verbatim>\<open>undefined\<close> is left out. \<open>sent_row\<close> is a row as the request carries it, its
  limit fields \<^verbatim>\<open>null\<close> or an integer.
\<close>

record sent_row =
  s_provider :: string
  s_tier_name :: string
  s_model_pattern :: string
  s_reset_strategy :: "string option"
  s_window_minutes :: int
  s_token_limit :: "int option"
  s_request_limit :: "int option"
  s_id :: "js_value option"

definition json_number :: "js_number \<Rightarrow> int option" where
  "json_number v = (case v of Num n \<Rightarrow> Some n | _ \<Rightarrow> None)"

definition json_row :: "config_row \<Rightarrow> sent_row" where
  "json_row r =
     \<lparr> s_provider = r_provider r,
       s_tier_name = r_tier_name r,
       s_model_pattern = r_model_pattern r,
       s_reset_strategy = r_reset_strategy r,
       s_window_minutes = r_window_minutes r,
       s_token_limit = (case r_token_limit r of None \<Rightarrow> None | Some v \<Rightarrow> json_number v),
       s_request_limit = (case r_request_limit r of None \<Rightarrow> None | Some v \<Rightarrow> json_number v),
       s_id = (case r_id r of Some JUndefined \<Rightarrow> None | i \<Rightarrow> i) \<rparr>"

datatype db_request = Delete_in "string list" | Upsert "sent_row list"

text \<open>The elements of a \<^verbatim>\<open>Set\<close> built from a list, in insertion order.\<close>

definition set_elements :: "'a list \<Rightarrow> 'a list" where
  "set_elements xs = rev (remdups (rev xs))"

text \<open>
  \<open>currentRows\<close> is the awaited answer to \<^verbatim>\<open>select('id')\<close> (the ids of the rows);
  \<open>delete_rejects\<close> says whether the awaited delete throws. Any exception ends the function
  in its \<^verbatim>\<open>catch\<close> block.
\<close>

definition saveConfig ::
  "string list query_result awaited \<Rightarrow> bool \<Rightarrow> new_config option \<Rightarrow> db_request list" where
  "saveConfig currentRows delete_rejects newConfig =
     (case newConfig of
        None \<Rightarrow> []
      | Some nc \<Rightarrow>
          (case nc_providers nc of
             None \<Rightarrow> []
           | Some entries \<Rightarrow>
               (case currentRows of
                  Rejects \<Rightarrow> []
                | Resolves res \<Rightarrow>
                    (let existingIds =
                           set_elements (case data res of None \<Rightarrow> [] | Some ids \<Rightarrow> ids);
                         idsToDelete =
                           filter (\<lambda>i. JString i \<notin> set (keptIds entries)) existingIds
                     in (if length idsToDelete > 0 then [Delete_in idsToDelete] else []) @
                        (if length idsToDelete > 0 \<and> delete_rejects then []
                         else if length (upsertData entries) > 0
                              then [Upsert (map json_row (upsertData entries))]
                              else [])))))"

section \<open>resetProviderLimits\<close>

text \<open>
  The object literal that \<^verbatim>\<open>resetProviderLimits\<close> hands to
  \<^verbatim>\<open>upsert\<close> for one configuration: six fields, in the order of the source.
\<close>

record status_upsert =
  u_config_id :: string
  u_remaining_tokens :: "int option"
  u_remaining_requests :: "int option"
  u_window_start :: "string option"
  u_next_reset :: "string option"
  u_last_updated :: "string option"

definition reset_payload :: "string \<Rightarrow> rate_limit_config \<Rightarrow> status_upsert" where
  "reset_payload now conf =
     \<lparr> u_config_id = conf_id conf,
       u_remaining_tokens = token_limit conf,
       u_remaining_requests = request_limit conf,
       u_window_start = Some now,
       u_next_reset = None,
       u_last_updated = Some now \<rparr>"

text \<open>
  Modelled from the spec: the store itself is not among the sources
  (\<^verbatim>\<open>upsertRateLimitStatus(RateLimitStatus, conflictKey=configId)\<close> in the spec). The
  status table is keyed by \<^verbatim>\<open>config_id\<close>, the conflict target. An upsert with
  \<^verbatim>\<open>onConflict: 'config_id'\<close> overwrites, in the row with that key, the columns the
  payload names and leaves every other column as it was; when no row has the key it
  inserts one, and a column the payload does not name gets its default (\<^verbatim>\<open>null\<close> for
  the optional anchor).
\<close>

type_synonym status_table = "string \<rightharpoonup> rate_limit_status"

definition merge_upsert :: "status_upsert \<Rightarrow> rate_limit_status option \<Rightarrow> rate_limit_status" where
  "merge_upsert p old =
     \<lparr> config_id = u_config_id p,
       remaining_tokens = u_remaining_tokens p,
       remaining_requests = u_remaining_requests p,
       window_start = u_window_start p,
       next_reset = u_next_reset p,
       last_updated = u_last_updated p,
       reset_anchor_timestamp =
         (case old of None \<Rightarrow> None | Some r \<Rightarrow> reset_anchor_timestamp r) \<rparr>"

definition upsert :: "status_upsert \<Rightarrow> status_table \<Rightarrow> status_table" where
  "upsert p tbl = tbl(u_config_id p \<mapsto> merge_upsert p (tbl (u_config_id p)))"

text \<open>
  What the store does with one awaited upsert: it writes the row; or it resolves with an
  \<^verbatim>\<open>error\<close> and writes nothing (the function does not look at the result, so the loop
  goes on); or the request rejects and the exception lands in the \<^verbatim>\<open>catch\<close> block,
  which ends the loop with the rows written so far.
\<close>

datatype upsert_outcome = Written | Refused | Thrown

text \<open>The \<^verbatim>\<open>for (const conf of configs)\<close> loop; \<open>store\<close> gives the outcome of each request.\<close>

fun reset_loop ::
  "(status_upsert \<Rightarrow> upsert_outcome) \<Rightarrow> string \<Rightarrow> rate_limit_config list \<Rightarrow>
   status_table \<Rightarrow> status_table"
where
  "reset_loop store now [] tbl = tbl"
| "reset_loop store now (conf # configs) tbl =
     (case store (reset_payload now conf) of
        Thrown \<Rightarrow> tbl
      | Refused \<Rightarrow> reset_loop store now configs tbl
      | Written \<Rightarrow> reset_loop store now configs (upsert (reset_payload now conf) tbl))"

text \<open>
  \<^verbatim>\<open>resetProviderLimits(providerName)\<close>. The store answers the
  \<^verbatim>\<open>ilike('provider', providerName)\<close> query through \<open>select_ilike\<close>: the rows it
  returns are the configurations matching the provider name. \<open>now\<close> is the clock
  reading \<^verbatim>\<open>new Date().toISOString()\<close>, taken once before the loop. The result is
  the status table after the call.
\<close>

definition resetProviderLimits ::
  "(string \<Rightarrow> rate_limit_config list query_result awaited) \<Rightarrow>
   (status_upsert \<Rightarrow> upsert_outcome) \<Rightarrow>
   string \<Rightarrow> string \<Rightarrow> status_table \<Rightarrow> status_table"
where
  "resetProviderLimits select_ilike store now providerName tbl =
     (case select_ilike providerName of
        Rejects \<Rightarrow> tbl
      | Resolves res \<Rightarrow>
          (case data res of
             None \<Rightarrow> tbl
           | Some configs \<Rightarrow>
               if length configs = 0 then tbl
               else reset_loop store now configs tbl))"

text \<open>The configurations the query returns for a provider name (none when it fails).\<close>

definition matching_configs ::
  "(string \<Rightarrow> rate_limit_config list query_result awaited) \<Rightarrow> string \<Rightarrow> rate_limit_config list"
where
  "matching_configs select_ilike providerName =
     (case select_ilike providerName of
        Rejects \<Rightarrow> []
      | Resolves res \<Rightarrow> (case data res of None \<Rightarrow> [] | Some configs \<Rightarrow> configs))"

text \<open>
  The requests the store writes: those before the first thrown one that it does not
  refuse. The loop is a fold of \<open>upsert\<close> over them (lemma \<open>reset_loop_fold\<close>).
\<close>

definition written ::
  "(status_upsert \<Rightarrow> upsert_outcome) \<Rightarrow> string \<Rightarrow> rate_limit_config list \<Rightarrow>
   status_upsert list"
where
  "written store now configs =
     filter (\<lambda>p. store p = Written)
       (takeWhile (\<lambda>p. store p \<noteq> Thrown) (map (reset_payload now) configs))"

section \<open>Properties of binary64 rounding\<close>

lemma rne_cases: "rne x = \<lfloor>x\<rfloor> \<or> rne x = \<lfloor>x\<rfloor> + 1"
  by (simp add: rne_def Let_def)

lemma rne_of_int [simp]: "rne (of_int n) = n"
  by (simp add: rne_def)

lemma rne_ge: "of_int n \<le> x \<Longrightarrow> n \<le> rne x"
proof -
  assume "of_int n \<le> x"
  then have "n \<le> \<lfloor>x\<rfloor>" by (simp add: le_floor_iff)
  with rne_cases [of x] show ?thesis by auto
qed

lemma rne_le: "x \<le> of_int n \<Longrightarrow> rne x \<le> n"
proof (cases "x = of_int n")
  case True
  then show ?thesis by simp
next
  case False
  assume "x \<le> of_int n"
  with False have "x < of_int n" by simp
  then have "\<lfloor>x\<rfloor> < n" by (simp add: floor_less_iff)
  with rne_cases [of x] show ?thesis by auto
qed

lemma rne_mono: "x \<le> y \<Longrightarrow> rne x \<le> rne y"
proof -
  assume xy: "x \<le> y"
  then have fl: "\<lfloor>x\<rfloor> \<le> \<lfloor>y\<rfloor>" by (rule floor_mono)
  show ?thesis
  proof (cases "\<lfloor>x\<rfloor> < \<lfloor>y\<rfloor>")
    case True
    then have "\<lfloor>x\<rfloor> + 1 \<le> \<lfloor>y\<rfloor>" by simp
    with rne_cases [of x] rne_cases [of y] show ?thesis by auto
  next
    case False
    with fl have eq: "\<lfloor>x\<rfloor> = \<lfloor>y\<rfloor>" by simp
    with xy have "x - of_int \<lfloor>x\<rfloor> \<le> y - of_int \<lfloor>y\<rfloor>" by simp
    with eq show ?thesis
      by (auto simp: rne_def Let_def)
  qed
qed

lemma rne_minus: "rne (- x) = - rne x"
proof (cases "x = of_int \<lfloor>x\<rfloor>")
  case True
  then obtain n where "x = of_int n" ..
  then show ?thesis by (simp flip: of_int_minus)
next
  case False
  then have fm: "\<lfloor>- x\<rfloor> = - \<lfloor>x\<rfloor> - 1"
    by (simp add: floor_minus ceiling_altdef)
  from False have lt: "of_int \<lfloor>x\<rfloor> < x"
    by (metis of_int_floor_le order_less_le)
  show ?thesis
    unfolding rne_def Let_def fm
    using lt by (auto simp: field_simps)
qed

lemma quotient_of_pos:
  assumes "0 < x" "quotient_of x = (p, q)"
  shows "0 < p" "0 < q" "x = of_int p / of_int q"
proof -
  from assms(2) show q: "0 < q" by (rule quotient_of_denom_pos)
  from assms(2) show x: "x = of_int p / of_int q"
    by (metis quotient_of_div)
  from assms(1) x q show "0 < p"
    by (simp add: zero_less_divide_iff)
qed

lemma of_int_bitlen_bounds:
  assumes "0 < p"
  shows "2 powi (bitlen p - 1) \<le> (of_int p :: rat)" "(of_int p :: rat) < 2 powi (bitlen p)"
proof -
  from assms have b: "1 \<le> bitlen p" by (simp add: bitlen_alt_def)
  from bitlen_bounds [OF assms]
  have lo: "2 ^ nat (bitlen p - 1) \<le> p" and hi: "p < 2 ^ nat (bitlen p)" by auto
  from lo have "(of_int (2 ^ nat (bitlen p - 1)) :: rat) \<le> of_int p"
    by (simp only: of_int_le_iff)
  with b show "2 powi (bitlen p - 1) \<le> (of_int p :: rat)"
    by (simp add: power_int_def)
  from hi have "(of_int p :: rat) < of_int (2 ^ nat (bitlen p))"
    by (simp only: of_int_less_iff)
  with b show "(of_int p :: rat) < 2 powi (bitlen p)"
    by (simp add: power_int_def)
qed

lemma ilog2_bounds:
  assumes "0 < x"
  shows "2 powi (ilog2 x) \<le> x" "x < 2 powi (ilog2 x + 1)"
proof -
  obtain p q where pq: "quotient_of x = (p, q)" by (cases "quotient_of x")
  from quotient_of_pos [OF assms pq]
  have p: "0 < p" and q: "0 < q" and x: "x = of_int p / of_int q" by auto
  let ?e = "bitlen p - bitlen q"
  have il: "ilog2 x = (if 2 powi ?e \<le> x then ?e else ?e - 1)"
    by (simp add: ilog2_def pq Let_def)
  note bp = of_int_bitlen_bounds [OF p] and bq = of_int_bitlen_bounds [OF q]
  have qpos: "(0::rat) < of_int q" using q by simp
  have two: "(2::rat) \<noteq> 0" by simp
  have lower: "2 powi (?e - 1) \<le> x"
  proof -
    have "(2::rat) powi (?e - 1) * of_int q \<le> 2 powi (?e - 1) * 2 powi (bitlen q)"
      using bq(2) by (intro mult_left_mono) auto
    also have "\<dots> = 2 powi (bitlen p - 1)"
      by (simp flip: power_int_add)
    also have "\<dots> \<le> of_int p" by (rule bp(1))
    finally show ?thesis using qpos by (simp add: x pos_le_divide_eq)
  qed
  have upper: "x < 2 powi (?e + 1)"
  proof -
    have "(of_int p :: rat) < 2 powi (bitlen p)" by (rule bp(2))
    also have "\<dots> = 2 powi (?e + 1) * 2 powi (bitlen q - 1)"
      by (simp flip: power_int_add)
    also have "\<dots> \<le> 2 powi (?e + 1) * of_int q"
      using bq(1) by (intro mult_left_mono) auto
    finally show ?thesis using qpos by (simp add: x pos_divide_less_eq)
  qed
  show "2 powi (ilog2 x) \<le> x" using lower by (simp add: il)
  show "x < 2 powi (ilog2 x + 1)"
  proof (cases "2 powi ?e \<le> x")
    case True
    with upper show ?thesis by (simp add: il)
  next
    case False
    then show ?thesis by (simp add: il)
  qed
qed

lemma powi2_less_iff: "(2::rat) powi m < 2 powi n \<longleftrightarrow> m < n"
proof
  assume l: "(2::rat) powi m < 2 powi n"
  show "m < n"
  proof (rule ccontr)
    assume "\<not> m < n"
    then have "n \<le> m" by simp
    then have "(2::rat) powi n \<le> 2 powi m" by (rule power_int_increasing) simp
    with l show False by simp
  qed
next
  assume "m < n"
  then show "(2::rat) powi m < 2 powi n" by (rule power_int_strict_increasing) simp
qed

lemma powi2_le_iff: "(2::rat) powi m \<le> 2 powi n \<longleftrightarrow> m \<le> n"
  using powi2_less_iff [of n m] by (simp add: not_less [symmetric])

lemma ilog2_mono:
  assumes "0 < x" "x \<le> y"
  shows "ilog2 x \<le> ilog2 y"
proof -
  from assms have y: "0 < y" by simp
  have "(2::rat) powi (ilog2 x) \<le> x" using assms(1) by (rule ilog2_bounds)
  also note assms(2)
  also have "y < 2 powi (ilog2 y + 1)" using y by (rule ilog2_bounds)
  finally have "ilog2 x < ilog2 y + 1" by (simp add: powi2_less_iff)
  then show ?thesis by simp
qed


lemma fl64_zero [simp]: "fl64 0 = 0"
  by (simp add: fl64_def)

lemma fl64_minus: "fl64 (- x) = - fl64 x"
  by (simp add: fl64_def Let_def rne_minus)

lemma fl64_pos_bounds:
  assumes "0 < x"
  shows "2 powi (ilog2 x) \<le> fl64 x" "fl64 x \<le> 2 powi (ilog2 x + 1)"
proof -
  let ?e = "ilog2 x"
  let ?u = "(2::rat) powi (?e - 52)"
  have u: "0 < ?u" by simp
  have fx: "fl64 x = of_int (rne (x / ?u)) * ?u"
    using assms by (simp add: fl64_def Let_def)
  note b = ilog2_bounds [OF assms]
  have e1: "(2::rat) powi ?e = of_int (2 ^ 52) * ?u"
    by (simp add: power_int_diff)
  have e2: "(2::rat) powi (?e + 1) = of_int (2 ^ 53) * ?u"
    by (simp add: power_int_diff power_int_add)
  from b(1) have "of_int (2 ^ 52) \<le> x / ?u"
    using u by (simp only: e1 pos_le_divide_eq)
  then have "2 ^ 52 \<le> rne (x / ?u)" by (rule rne_ge)
  then have "(of_int (2 ^ 52) :: rat) \<le> of_int (rne (x / ?u))"
    by (simp only: of_int_le_iff)
  then have "of_int (2 ^ 52) * ?u \<le> of_int (rne (x / ?u)) * ?u"
    using u by (simp only: mult_le_cancel_right_pos)
  then show "2 powi ?e \<le> fl64 x" by (simp only: e1 fx)
  from b(2) have "x / ?u \<le> of_int (2 ^ 53)"
    using u by (simp only: e2 pos_divide_le_eq less_imp_le)
  then have "rne (x / ?u) \<le> 2 ^ 53" by (rule rne_le)
  then have "(of_int (rne (x / ?u)) :: rat) \<le> of_int (2 ^ 53)"
    by (simp only: of_int_le_iff)
  then have "of_int (rne (x / ?u)) * ?u \<le> of_int (2 ^ 53) * ?u"
    using u by (simp only: mult_le_cancel_right_pos)
  then show "fl64 x \<le> 2 powi (?e + 1)" by (simp only: e2 fx)
qed

lemma fl64_pos:
  assumes "0 < x"
  shows "0 < fl64 x"
proof -
  have "(0::rat) < 2 powi (ilog2 x)" by simp
  also have "\<dots> \<le> fl64 x" using assms by (rule fl64_pos_bounds)
  finally show ?thesis .
qed

lemma fl64_mono_pos:
  assumes "0 < x" "x \<le> y"
  shows "fl64 x \<le> fl64 y"
proof -
  from assms have y: "0 < y" by simp
  from assms have le: "ilog2 x \<le> ilog2 y" by (rule ilog2_mono)
  show ?thesis
  proof (cases "ilog2 x = ilog2 y")
    case True
    let ?u = "(2::rat) powi (ilog2 y - 52)"
    have u: "0 < ?u" by simp
    from assms(2) u have "x / ?u \<le> y / ?u" by (simp add: divide_right_mono)
    then have "rne (x / ?u) \<le> rne (y / ?u)" by (rule rne_mono)
    then have "(of_int (rne (x / ?u)) :: rat) * ?u \<le> of_int (rne (y / ?u)) * ?u"
      using u by (simp only: mult_le_cancel_right_pos of_int_le_iff)
    with assms(1) y True show ?thesis by (simp add: fl64_def Let_def)
  next
    case False
    with le have "ilog2 x + 1 \<le> ilog2 y" by simp
    then have "(2::rat) powi (ilog2 x + 1) \<le> 2 powi (ilog2 y)"
      by (simp only: powi2_le_iff)
    with fl64_pos_bounds(2) [OF assms(1)] fl64_pos_bounds(1) [OF y]
    show ?thesis by linarith
  qed
qed

lemma fl64_nonneg: "0 \<le> x \<Longrightarrow> 0 \<le> fl64 x"
  using fl64_pos [of x] by (cases "x = 0") auto

lemma fl64_nonpos: "x \<le> 0 \<Longrightarrow> fl64 x \<le> 0"
  using fl64_nonneg [of "- x"] by (simp add: fl64_minus)

lemma fl64_mono:
  assumes "x \<le> y"
  shows "fl64 x \<le> fl64 y"
proof -
  consider "0 < x" | "x \<le> 0" "0 \<le> y" | "y < 0" by linarith
  then show ?thesis
  proof cases
    case 1
    from 1 assms show ?thesis by (rule fl64_mono_pos)
  next
    case 2
    then have "fl64 x \<le> 0" "0 \<le> fl64 y" by (simp_all add: fl64_nonpos fl64_nonneg)
    then show ?thesis by simp
  next
    case 3
    with assms have "0 < - y" "- y \<le> - x" by simp_all
    then have "fl64 (- y) \<le> fl64 (- x)" by (rule fl64_mono_pos)
    then show ?thesis by (simp add: fl64_minus)
  qed
qed

lemma fl64_exact:
  assumes "x / 2 powi (ilog2 \<bar>x\<bar> - 52) = of_int m"
  shows "fl64 x = x"
proof (cases "x = 0")
  case True
  then show ?thesis by simp
next
  case False
  let ?u = "(2::rat) powi (ilog2 \<bar>x\<bar> - 52)"
  have u: "?u \<noteq> 0" by simp
  from False have "fl64 x = of_int (rne (x / ?u)) * ?u" by (simp add: fl64_def Let_def)
  also have "\<dots> = of_int m * ?u" by (simp only: assms rne_of_int)
  also have "\<dots> = x / ?u * ?u" by (simp only: assms)
  also have "\<dots> = x" using u by simp
  finally show ?thesis .
qed

lemma fl64_of_nat_exact:
  assumes "0 < n" "n \<le> 2 ^ 53"
  shows "fl64 (of_int n) = of_int n"
proof -
  let ?x = "of_int n :: rat"
  let ?e = "ilog2 ?x"
  have x: "0 < ?x" using assms(1) by simp
  have ax: "\<bar>?x\<bar> = ?x" using x by simp
  note b = ilog2_bounds [OF x]
  have "(1::rat) \<le> ?x" using assms(1) by simp
  then have "(2::rat) powi 0 \<le> ?x" by simp
  from this b(2) have "(2::rat) powi 0 < 2 powi (?e + 1)" by (rule le_less_trans)
  then have e0: "0 \<le> ?e" by (simp only: powi2_less_iff)
  have p53: "(2::rat) powi 53 = of_int (2 ^ 53)" by simp
  from assms(2) have "?x \<le> of_int (2 ^ 53)" by (simp only: of_int_le_iff)
  then have "?x \<le> 2 powi 53" by (simp only: p53)
  from b(1) this have "(2::rat) powi ?e \<le> 2 powi 53" by (rule order_trans)
  then have e53: "?e \<le> 53" by (simp only: powi2_le_iff)
  show ?thesis
  proof (cases "?e \<le> 52")
    case True
    define k where "k = nat (52 - ?e)"
    from True have "?e - 52 = - int k" by (simp add: k_def)
    then have "(2::rat) powi (?e - 52) = inverse (2 ^ k)"
      by (simp only: power_int_minus power_int_of_nat)
    then have "?x / 2 powi (?e - 52) = of_int (n * 2 ^ k)"
      by (simp add: divide_inverse)
    then have "?x / 2 powi (ilog2 \<bar>?x\<bar> - 52) = of_int (n * 2 ^ k)"
      by (simp only: ax)
    then show ?thesis by (rule fl64_exact)
  next
    case False
    with e53 have e: "?e = 53" by simp
    from b(1) have "of_int (2 ^ 53) \<le> ?x" by (simp only: e p53)
    then have "2 ^ 53 \<le> n" by (simp only: of_int_le_iff)
    with assms(2) have n: "n = 2 ^ 53" by simp
    have "(2::rat) powi (?e - 52) = 2" by (simp only: e) simp
    then have "?x / 2 powi (?e - 52) = of_int (2 ^ 52)"
      by (simp only: n) simp
    then have "?x / 2 powi (ilog2 \<bar>?x\<bar> - 52) = of_int (2 ^ 52)"
      by (simp only: ax)
    then show ?thesis by (rule fl64_exact)
  qed
qed

lemma fl64_of_int_exact:
  assumes "\<bar>n\<bar> \<le> 2 ^ 53"
  shows "fl64 (of_int n) = of_int n"
proof -
  consider "n = 0" | "0 < n" | "n < 0" by linarith
  then show ?thesis
  proof cases
    case 1
    then show ?thesis by simp
  next
    case 2
    with assms show ?thesis by (simp add: fl64_of_nat_exact)
  next
    case 3
    with assms have "fl64 (of_int (- n)) = of_int (- n)"
      by (intro fl64_of_nat_exact) simp_all
    then show ?thesis by (simp add: fl64_minus)
  qed
qed

section \<open>Properties of resetProviderLimits\<close>

lemma merge_upsert_absorb:
  "merge_upsert q (Some (merge_upsert p old)) = merge_upsert q old"
  by (simp add: merge_upsert_def)

lemma reset_loop_other:
  "k \<notin> conf_id ` set configs \<Longrightarrow> reset_loop store now configs tbl k = tbl k"
  by (induction configs arbitrary: tbl)
     (auto simp: upsert_def reset_payload_def split: upsert_outcome.splits)

lemma reset_loop_row:
  assumes "distinct (map conf_id configs)"
    and "\<forall>c\<in>set configs. store (reset_payload now c) = Written"
    and "conf \<in> set configs"
  shows "reset_loop store now configs tbl (conf_id conf) =
           Some (merge_upsert (reset_payload now conf) (tbl (conf_id conf)))"
  using assms
proof (induction configs arbitrary: tbl)
  case Nil
  then show ?case by simp
next
  case (Cons c cs)
  show ?case
  proof (cases "conf = c")
    case True
    with Cons.prems have "conf_id c \<notin> conf_id ` set cs" by auto
    with True Cons.prems show ?thesis
      by (simp add: reset_loop_other) (simp add: upsert_def reset_payload_def)
  next
    case False
    with Cons.prems have in_cs: "conf \<in> set cs" and ne: "conf_id c \<noteq> conf_id conf"
      by auto
    from Cons.prems in_cs
    have "reset_loop store now cs (upsert (reset_payload now c) tbl) (conf_id conf) =
            Some (merge_upsert (reset_payload now conf)
                    (upsert (reset_payload now c) tbl (conf_id conf)))"
      by (intro Cons.IH) auto
    with ne Cons.prems show ?thesis
      by (simp add: upsert_def reset_payload_def)
  qed
qed

lemma matching_row:
  assumes "conf \<in> set (matching_configs select_ilike providerName)"
    and "distinct (map conf_id (matching_configs select_ilike providerName))"
    and "\<forall>c\<in>set (matching_configs select_ilike providerName).
           store (reset_payload now c) = Written"
  shows "resetProviderLimits select_ilike store now providerName tbl (conf_id conf) =
           Some (merge_upsert (reset_payload now conf) (tbl (conf_id conf)))"
proof (cases "select_ilike providerName")
  case Rejects
  with assms(1) show ?thesis by (simp add: matching_configs_def)
next
  case (Resolves res)
  show ?thesis
  proof (cases "data res")
    case None
    with Resolves assms(1) show ?thesis by (simp add: matching_configs_def)
  next
    case (Some configs)
    with Resolves have m: "matching_configs select_ilike providerName = configs"
      by (simp add: matching_configs_def)
    with assms(1) have "configs \<noteq> []" by auto
    with Resolves Some have
      "resetProviderLimits select_ilike store now providerName tbl =
         reset_loop store now configs tbl"
      by (simp add: resetProviderLimits_def)
    with assms m show ?thesis by (simp add: reset_loop_row)
  qed
qed

lemma reset_loop_fold:
  "reset_loop store now configs tbl = fold upsert (written store now configs) tbl"
  by (induction configs arbitrary: tbl)
     (auto simp: written_def split: upsert_outcome.splits)

lemma fold_upsert_lookup:
  "fold upsert ps tbl k =
     (case find (\<lambda>p. u_config_id p = k) (rev ps) of
        None \<Rightarrow> tbl k
      | Some p \<Rightarrow> Some (merge_upsert p (tbl k)))"
proof (induction ps rule: rev_induct)
  case Nil
  then show ?case by simp
next
  case (snoc p ps)
  then show ?case
    by (auto simp: upsert_def merge_upsert_absorb split: option.splits)
qed

lemma fold_upsert_twice:
  "fold upsert ps (fold upsert ps tbl) = fold upsert ps tbl"
proof
  fix k
  show "fold upsert ps (fold upsert ps tbl) k = fold upsert ps tbl k"
    by (simp add: fold_upsert_lookup merge_upsert_absorb split: option.splits)
qed

lemma written_all:
  assumes "\<forall>c\<in>set configs. store (reset_payload now c) = Written"
  shows "written store now configs = map (reset_payload now) configs"
proof -
  from assms have "\<forall>p\<in>set (map (reset_payload now) configs). store p = Written"
    by auto
  then show ?thesis
    unfolding written_def by (induction configs) simp_all
qed

text \<open>
  Claim C1. For every configuration the provider query returns (the configurations
  matching \<open>providerName\<close>; their ids are distinct, \<^verbatim>\<open>id\<close> being the primary key),
  when the store writes every upsert, the status row of that configuration after
  \<^verbatim>\<open>resetProviderLimits(providerName)\<close> has \<^verbatim>\<open>remaining_tokens\<close> equal to the
  configuration's \<^verbatim>\<open>token_limit\<close>, \<^verbatim>\<open>remaining_requests\<close> equal to its
  \<^verbatim>\<open>request_limit\<close>, \<^verbatim>\<open>window_start\<close> equal to \<open>now\<close> and
  \<^verbatim>\<open>next_reset\<close> equal to \<^verbatim>\<open>null\<close>, whatever the table held before; and the
  record with these values is among the requests the call has written.
\<close>

theorem reset_writes_full_limits:
  assumes "conf \<in> set (matching_configs select_ilike providerName)"
    and "distinct (map conf_id (matching_configs select_ilike providerName))"
    and "\<forall>c\<in>set (matching_configs select_ilike providerName).
           store (reset_payload now c) = Written"
  shows "(\<exists>row. resetProviderLimits select_ilike store now providerName tbl (conf_id conf) = Some row
           \<and> config_id row = conf_id conf
           \<and> remaining_tokens row = token_limit conf
           \<and> remaining_requests row = request_limit conf
           \<and> window_start row = Some now
           \<and> next_reset row = None)
       \<and> (\<exists>p. p \<in> set (written store now (matching_configs select_ilike providerName))
           \<and> u_config_id p = conf_id conf
           \<and> u_remaining_tokens p = token_limit conf
           \<and> u_remaining_requests p = request_limit conf
           \<and> u_window_start p = Some now
           \<and> u_next_reset p = None)"
proof -
  from matching_row [OF assms, of tbl]
  have "\<exists>row. resetProviderLimits select_ilike store now providerName tbl (conf_id conf) = Some row
           \<and> config_id row = conf_id conf
           \<and> remaining_tokens row = token_limit conf
           \<and> remaining_requests row = request_limit conf
           \<and> window_start row = Some now
           \<and> next_reset row = None"
    by (simp add: merge_upsert_def reset_payload_def)
  moreover from assms(1,3)
  have "reset_payload now conf
          \<in> set (written store now (matching_configs select_ilike providerName))"
    by (simp add: written_all)
  then have "\<exists>p. p \<in> set (written store now (matching_configs select_ilike providerName))
           \<and> u_config_id p = conf_id conf
           \<and> u_remaining_tokens p = token_limit conf
           \<and> u_remaining_requests p = request_limit conf
           \<and> u_window_start p = Some now
           \<and> u_next_reset p = None"
    by (intro exI [of _ "reset_payload now conf"]) (simp add: reset_payload_def)
  ultimately show ?thesis by blast
qed

theorem reset_writes_full_limits_witness:
  "\<exists>row.
     resetProviderLimits
       (\<lambda>n. Resolves \<lparr> data = Some
          [\<lparr> conf_id = ''c-1'', provider = Some ''OpenAI'', tier_name = None,
             model_pattern = Some ''gpt-4'', token_limit = Some 50000, request_limit = None,
             reset_strategy = Some ''rolling'', window_minutes = Some 300 \<rparr>,
           \<lparr> conf_id = ''c-2'', provider = Some ''OpenAI'', tier_name = None,
             model_pattern = None, token_limit = None, request_limit = Some 1000,
             reset_strategy = Some ''daily'', window_minutes = Some 1440 \<rparr>],
          error = None \<rparr>)
       (\<lambda>p. Written) ''2026-01-05T14:00:00.000Z'' ''openai''
       [''c-2'' \<mapsto> \<lparr> config_id = ''c-2'', remaining_tokens = None,
          remaining_requests = Some 12, window_start = Some ''2026-01-05T00:00:00.000Z'',
          next_reset = Some ''2026-01-06T00:00:00.000Z'',
          last_updated = Some ''2026-01-05T13:55:00.000Z'',
          reset_anchor_timestamp = None \<rparr>]
       ''c-2'' = Some row
     \<and> config_id row = ''c-2''
     \<and> remaining_tokens row = None
     \<and> remaining_requests row = Some 1000
     \<and> window_start row = Some ''2026-01-05T14:00:00.000Z''
     \<and> next_reset row = None"
  using reset_writes_full_limits
    [of "\<lparr> conf_id = ''c-2'', provider = Some ''OpenAI'', tier_name = None,
             model_pattern = None, token_limit = None, request_limit = Some 1000,
             reset_strategy = Some ''daily'', window_minutes = Some 1440 \<rparr>"
        "\<lambda>n. Resolves \<lparr> data = Some
          [\<lparr> conf_id = ''c-1'', provider = Some ''OpenAI'', tier_name = None,
             model_pattern = Some ''gpt-4'', token_limit = Some 50000, request_limit = None,
             reset_strategy = Some ''rolling'', window_minutes = Some 300 \<rparr>,
           \<lparr> conf_id = ''c-2'', provider = Some ''OpenAI'', tier_name = None,
             model_pattern = None, token_limit = None, request_limit = Some 1000,
             reset_strategy = Some ''daily'', window_minutes = Some 1440 \<rparr>],
          error = None \<rparr>"
        "''openai''" "\<lambda>p. Written" "''2026-01-05T14:00:00.000Z''"
        "[''c-2'' \<mapsto> \<lparr> config_id = ''c-2'', remaining_tokens = None,
          remaining_requests = Some 12, window_start = Some ''2026-01-05T00:00:00.000Z'',
          next_reset = Some ''2026-01-06T00:00:00.000Z'',
          last_updated = Some ''2026-01-05T13:55:00.000Z'',
          reset_anchor_timestamp = None \<rparr>]"]
  by (simp add: matching_configs_def)

text \<open>
  Claim C3. \<^verbatim>\<open>resetProviderLimits\<close> is idempotent for a fixed clock reading: with the
  same \<open>now\<close> and the same answer of the store to the provider query, a second call
  right after the first leaves the status table, and so the row of every matching
  configuration, exactly as the first call left it.
\<close>

theorem reset_idempotent:
  "resetProviderLimits select_ilike store now providerName
     (resetProviderLimits select_ilike store now providerName tbl) =
   resetProviderLimits select_ilike store now providerName tbl"
  by (simp add: resetProviderLimits_def reset_loop_fold fold_upsert_twice
      split: awaited.splits option.splits)

text \<open>
  Claim C4, as stated, fails: the record \<^verbatim>\<open>resetProviderLimits\<close> writes has no
  \<^verbatim>\<open>reset_anchor_timestamp\<close> field. After a reset at 14:00 of a configuration
  with no status row yet, the anchor of the new row is \<^verbatim>\<open>null\<close>; after the same
  reset of a configuration whose row holds an anchor of the day before, the anchor is
  still that of the day before. In neither case is it 14:00.
\<close>

theorem reset_anchor_counterexample:
  "map_option reset_anchor_timestamp
     (resetProviderLimits
        (\<lambda>n. Resolves \<lparr> data = Some
          [\<lparr> conf_id = ''c-2'', provider = Some ''OpenAI'', tier_name = None,
             model_pattern = None, token_limit = None, request_limit = Some 1000,
             reset_strategy = Some ''daily'', window_minutes = Some 1440 \<rparr>],
          error = None \<rparr>)
        (\<lambda>p. Written) ''2026-01-05T14:00:00.000Z'' ''openai'' Map.empty ''c-2'')
   = Some None
   \<and> map_option reset_anchor_timestamp
     (resetProviderLimits
        (\<lambda>n. Resolves \<lparr> data = Some
          [\<lparr> conf_id = ''c-2'', provider = Some ''OpenAI'', tier_name = None,
             model_pattern = None, token_limit = None, request_limit = Some 1000,
             reset_strategy = Some ''daily'', window_minutes = Some 1440 \<rparr>],
          error = None \<rparr>)
        (\<lambda>p. Written) ''2026-01-05T14:00:00.000Z'' ''openai''
        [''c-2'' \<mapsto> \<lparr> config_id = ''c-2'', remaining_tokens = None,
           remaining_requests = Some 12, window_start = Some ''2026-01-05T00:00:00.000Z'',
           next_reset = Some ''2026-01-06T00:00:00.000Z'',
           last_updated = Some ''2026-01-05T13:55:00.000Z'',
           reset_anchor_timestamp = Some ''2026-01-04T09:30:00.000Z'' \<rparr>]
        ''c-2'')
   = Some (Some ''2026-01-04T09:30:00.000Z'')
   \<and> None \<noteq> Some ''2026-01-05T14:00:00.000Z''
   \<and> Some ''2026-01-04T09:30:00.000Z'' \<noteq> Some ''2026-01-05T14:00:00.000Z''"
  by (simp add: resetProviderLimits_def upsert_def merge_upsert_def reset_payload_def)

text \<open>
  Claim C4, amended. For every configuration matching the provider name (ids distinct,
  every upsert written), the row written by \<^verbatim>\<open>resetProviderLimits\<close> has
  \<^verbatim>\<open>window_start\<close> and \<^verbatim>\<open>last_updated\<close> equal to \<open>now\<close>, and its
  \<^verbatim>\<open>reset_anchor_timestamp\<close> is not written: it is what the row held before the
  call, or \<^verbatim>\<open>null\<close> when the row is new.
\<close>

theorem reset_keeps_anchor:
  assumes "conf \<in> set (matching_configs select_ilike providerName)"
    and "distinct (map conf_id (matching_configs select_ilike providerName))"
    and "\<forall>c\<in>set (matching_configs select_ilike providerName).
           store (reset_payload now c) = Written"
  shows "\<exists>row. resetProviderLimits select_ilike store now providerName tbl (conf_id conf) = Some row
           \<and> window_start row = Some now
           \<and> last_updated row = Some now
           \<and> reset_anchor_timestamp row =
               (case tbl (conf_id conf) of None \<Rightarrow> None | Some old \<Rightarrow> reset_anchor_timestamp old)"
  using matching_row [OF assms, of tbl]
  by (simp add: merge_upsert_def reset_payload_def)

theorem reset_keeps_anchor_witness:
  "\<exists>row.
     resetProviderLimits
       (\<lambda>n. Resolves \<lparr> data = Some
          [\<lparr> conf_id = ''c-2'', provider = Some ''OpenAI'', tier_name = None,
             model_pattern = None, token_limit = None, request_limit = Some 1000,
             reset_strategy = Some ''daily'', window_minutes = Some 1440 \<rparr>],
          error = None \<rparr>)
       (\<lambda>p. Written) ''2026-01-05T14:00:00.000Z'' ''openai''
       [''c-2'' \<mapsto> \<lparr> config_id = ''c-2'', remaining_tokens = None,
          remaining_requests = Some 12, window_start = Some ''2026-01-05T00:00:00.000Z'',
          next_reset = Some ''2026-01-06T00:00:00.000Z'',
          last_updated = Some ''2026-01-05T13:55:00.000Z'',
          reset_anchor_timestamp = Some ''2026-01-04T09:30:00.000Z'' \<rparr>]
       ''c-2'' = Some row
     \<and> window_start row = Some ''2026-01-05T14:00:00.000Z''
     \<and> last_updated row = Some ''2026-01-05T14:00:00.000Z''
     \<and> reset_anchor_timestamp row = Some ''2026-01-04T09:30:00.000Z''"
  using reset_keeps_anchor
    [of "\<lparr> conf_id = ''c-2'', provider = Some ''OpenAI'', tier_name = None,
             model_pattern = None, token_limit = None, request_limit = Some 1000,
             reset_strategy = Some ''daily'', window_minutes = Some 1440 \<rparr>"
        "\<lambda>n. Resolves \<lparr> data = Some
          [\<lparr> conf_id = ''c-2'', provider = Some ''OpenAI'', tier_name = None,
             model_pattern = None, token_limit = None, request_limit = Some 1000,
             reset_strategy = Some ''daily'', window_minutes = Some 1440 \<rparr>],
          error = None \<rparr>"
        "''openai''" "\<lambda>p. Written" "''2026-01-05T14:00:00.000Z''"
        "[''c-2'' \<mapsto> \<lparr> config_id = ''c-2'', remaining_tokens = None,
          remaining_requests = Some 12, window_start = Some ''2026-01-05T00:00:00.000Z'',
          next_reset = Some ''2026-01-06T00:00:00.000Z'',
          last_updated = Some ''2026-01-05T13:55:00.000Z'',
          reset_anchor_timestamp = Some ''2026-01-04T09:30:00.000Z'' \<rparr>]"]
  by (simp add: matching_configs_def)

section \<open>Properties of loadRateLimitsConfig\<close>

lemma fl64_one: "fl64 1 = 1"
  using fl64_of_int_exact [of 1] by simp

lemma fl64_hundred: "fl64 100 = 100"
  using fl64_of_int_exact [of 100] by simp

lemma percentage_of_bounds:
  assumes "0 \<le> safe" "safe \<le> lmt" "0 < lmt"
  shows "0 \<le> percentage_of safe lmt" "percentage_of safe lmt \<le> 100"
proof -
  let ?q = "of_int safe / of_int lmt :: rat"
  from assms have q0: "0 \<le> ?q" by simp
  from assms have q1: "?q \<le> 1" by simp
  from q0 have d0: "0 \<le> js_div (of_int safe) (of_int lmt)"
    unfolding js_div_def by (rule fl64_nonneg)
  from q1 have "fl64 ?q \<le> fl64 1" by (rule fl64_mono)
  then have d1: "js_div (of_int safe) (of_int lmt) \<le> 1"
    by (simp add: js_div_def fl64_one)
  let ?m = "js_mul (js_div (of_int safe) (of_int lmt)) 100"
  from d0 have m0: "0 \<le> ?m"
    unfolding js_mul_def by (intro fl64_nonneg) simp
  from d1 have "fl64 (js_div (of_int safe) (of_int lmt) * 100) \<le> fl64 100"
    by (intro fl64_mono) simp
  then have m1: "?m \<le> 100" by (simp add: js_mul_def fl64_hundred)
  from m0 show "0 \<le> percentage_of safe lmt"
    by (simp add: percentage_of_def Math_round_def)
  from m1 have "?m + 1 / 2 < of_int 101" by simp
  then have "\<lfloor>?m + 1 / 2\<rfloor> < 101" by (simp only: floor_less_iff)
  then show "percentage_of safe lmt \<le> 100"
    by (simp add: percentage_of_def Math_round_def)
qed

lemma Math_round_of_int: "Math_round (of_int n) = n"
  unfolding Math_round_def by (rule floor_unique) simp_all

lemma percentage_of_full:
  assumes "lmt \<noteq> 0"
  shows "percentage_of lmt lmt = 100"
proof -
  from assms have "js_mul (js_div (of_int lmt) (of_int lmt)) 100 = of_int 100"
    by (simp add: js_div_def js_mul_def fl64_one fl64_hundred)
  then show ?thesis
    unfolding percentage_of_def by (simp only: Math_round_of_int)
qed

lemma js_sub_self: "js_sub a a = 0"
  by (simp add: js_sub_def)

lemma statusMap_None:
  "statusMap sd k = None \<longleftrightarrow>
     k \<notin> config_id ` set (case sd of None \<Rightarrow> [] | Some rows \<Rightarrow> rows)"
  by (auto simp: statusMap_def map_of_eq_None_iff image_image split: option.splits)

lemma add_config_keeps:
  assumes "add_config smap conf ps = Inr ps'" "ps k = Some p" "e \<in> set (p_limits p)"
  shows "\<exists>p'. ps' k = Some p' \<and> e \<in> set (p_limits p')"
  using assms
  by (auto simp: add_config_def Let_def split: option.splits if_splits)

lemma add_config_adds:
  assumes "add_config smap conf ps = Inr ps'"
  shows "\<exists>prov p. provider conf = Some prov \<and> ps' (toLowerCase prov) = Some p
           \<and> limit_entry conf (smap (conf_id conf)) \<in> set (p_limits p)"
  using assms
  by (auto simp: add_config_def Let_def split: option.splits if_splits)

lemma forEach_config_keeps:
  assumes "forEach_config smap configs ps = Inr ps'" "ps k = Some p" "e \<in> set (p_limits p)"
  shows "\<exists>p'. ps' k = Some p' \<and> e \<in> set (p_limits p')"
  using assms
proof (induction configs arbitrary: ps p)
  case Nil
  then show ?case by simp
next
  case (Cons c cs)
  from Cons.prems(1) obtain ps1 where a: "add_config smap c ps = Inr ps1"
    and f: "forEach_config smap cs ps1 = Inr ps'"
    by (auto split: sum.splits)
  from add_config_keeps [OF a Cons.prems(2,3)]
  obtain p1 where "ps1 k = Some p1" "e \<in> set (p_limits p1)" by auto
  with f show ?case by (rule Cons.IH)
qed

lemma forEach_config_entry:
  assumes "forEach_config smap configs ps = Inr ps'" "conf \<in> set configs"
  shows "\<exists>prov p. provider conf = Some prov \<and> ps' (toLowerCase prov) = Some p
           \<and> limit_entry conf (smap (conf_id conf)) \<in> set (p_limits p)"
  using assms
proof (induction configs arbitrary: ps)
  case Nil
  then show ?case by simp
next
  case (Cons c cs)
  from Cons.prems(1) obtain ps1 where a: "add_config smap c ps = Inr ps1"
    and f: "forEach_config smap cs ps1 = Inr ps'"
    by (auto split: sum.splits)
  show ?case
  proof (cases "conf = c")
    case True
    from add_config_adds [OF a] obtain prov p where
      pr: "provider c = Some prov" and k: "ps1 (toLowerCase prov) = Some p"
      and e: "limit_entry c (smap (conf_id c)) \<in> set (p_limits p)" by auto
    from forEach_config_keeps [OF f k e] pr True show ?thesis by auto
  next
    case False
    with Cons.prems(2) have "conf \<in> set cs" by simp
    with f show ?thesis by (rule Cons.IH)
  qed
qed

lemma loaded_entry:
  assumes "loadRateLimitsConfig (Resolves (configsResult, statusResult)) = Some ui"
    and "data configsResult = Some configs" and "conf \<in> set configs"
  shows "\<exists>prov p. provider conf = Some prov \<and> providers ui (toLowerCase prov) = Some p
           \<and> limit_entry conf (statusMap (data statusResult) (conf_id conf)) \<in> set (p_limits p)"
proof -
  from assms(1,2) obtain ps where
    f: "forEach_config (statusMap (data statusResult)) configs Map.empty = Inr ps"
    and ui: "ui = \<lparr> providers = ps \<rparr>"
    by (auto simp: loadRateLimitsConfig_def load_try_def split: sum.splits if_splits)
  from forEach_config_entry [OF f assms(3)] ui show ?thesis by simp
qed

lemma add_config_dom:
  assumes "add_config smap conf ps = Inr ps'" "\<forall>k\<in>set object_prototype_keys. ps k = None"
  shows "\<forall>k\<in>set object_prototype_keys. ps' k = None"
  using assms
  by (auto simp: add_config_def Let_def split: option.splits if_splits)

lemma add_config_throws:
  assumes "provider c = None \<or> toLowerCase (the (provider c)) \<in> set object_prototype_keys"
    and "\<forall>k\<in>set object_prototype_keys. ps k = None"
  shows "add_config smap c ps = Inl TypeError"
  using assms
  by (auto simp: add_config_def Let_def split: option.splits)

lemma forEach_config_throws:
  assumes "c \<in> set configs"
    and "provider c = None \<or> toLowerCase (the (provider c)) \<in> set object_prototype_keys"
    and "\<forall>k\<in>set object_prototype_keys. ps k = None"
  shows "\<exists>e. forEach_config smap configs ps = Inl e"
  using assms(1,3)
proof (induction configs arbitrary: ps)
  case Nil
  then show ?case by simp
next
  case (Cons a cs)
  show ?case
  proof (cases "add_config smap a ps")
    case (Inl e)
    then show ?thesis by simp
  next
    case (Inr ps1)
    with assms(2) Cons.prems(2) have "a \<noteq> c"
      by (auto simp: add_config_throws)
    with Cons.prems(1) have "c \<in> set cs" by simp
    moreover from Inr Cons.prems(2) have "\<forall>k\<in>set object_prototype_keys. ps1 k = None"
      by (rule add_config_dom)
    ultimately have "\<exists>e. forEach_config smap cs ps1 = Inl e" by (rule Cons.IH)
    with Inr show ?thesis by simp
  qed
qed


lemma limit_view_tokens:
  assumes "token_limit conf = Some L" "L \<noteq> 0"
  shows "limit_view conf status =
     \<lparr> limitVal = L, limitUnit = ''tokens'',
       remaining = Some (remaining_or remaining_tokens status L),
       safeRemaining = Some (clamp_remaining (remaining_or remaining_tokens status L) L),
       used = Some (used_of L (remaining_or remaining_tokens status L)),
       percentage_local =
         percentage_of (clamp_remaining (remaining_or remaining_tokens status L) L) L,
       usedLabel =
         toFixed 1 (js_div (of_int (used_of L (remaining_or remaining_tokens status L))) 1000)
         @ ''k / '' @ toFixed 0 (js_div (of_int L) 1000) @ ''k'' \<rparr>"
  using assms by (simp add: limit_view_def truthy_num_def Let_def)

lemma limit_view_requests:
  assumes "\<not> truthy_num (token_limit conf)" "request_limit conf = Some L" "L \<noteq> 0"
  shows "limit_view conf status =
     \<lparr> limitVal = L, limitUnit = ''requests'',
       remaining = Some (remaining_or remaining_requests status L),
       safeRemaining = Some (clamp_remaining (remaining_or remaining_requests status L) L),
       used = Some (used_of L (remaining_or remaining_requests status L)),
       percentage_local =
         percentage_of (clamp_remaining (remaining_or remaining_requests status L) L) L,
       usedLabel = number_to_string (used_of L (remaining_or remaining_requests status L))
         @ '' / '' @ number_to_string L \<rparr>"
  using assms by (simp add: limit_view_def truthy_num_def Let_def)

lemma limit_view_unlimited:
  assumes "\<not> truthy_num (token_limit conf)" "\<not> truthy_num (request_limit conf)"
  shows "limit_view conf status =
     \<lparr> limitVal = 0, limitUnit = ''requests'', remaining = None, safeRemaining = None,
       used = None, percentage_local = 100, usedLabel = ''Unlimited'' \<rparr>"
  using assms by (simp add: limit_view_def)

lemma entry_backendStatus:
  "l_backendStatus (limit_entry conf status) = Some
     \<lparr> percentage = percentage_local (limit_view conf status),
       nextReset = (case status of None \<Rightarrow> None | Some s \<Rightarrow> next_reset s),
       label = usedLabel (limit_view conf status) \<rparr>"
  by (simp add: limit_entry_def Let_def)

lemma entry_id_limit:
  "l_id (limit_entry conf status) = JString (conf_id conf)"
  "l_limit (limit_entry conf status) = JNumber (limitVal (limit_view conf status))"
  "l_unit (limit_entry conf status) = limitUnit (limit_view conf status)"
  by (simp_all add: limit_entry_def Let_def)

text \<open>
  Claim C2. For every configuration whose limit in force is positive (a positive
  \<^verbatim>\<open>token_limit\<close>, or no token limit and a positive \<^verbatim>\<open>request_limit\<close>) and every
  status (none, or a row whose \<^verbatim>\<open>remaining_*\<close> is \<^verbatim>\<open>null\<close>, below 0, inside the
  range or above the limit), the value \<open>safeRemaining\<close> that
  \<^verbatim>\<open>loadRateLimitsConfig\<close> divides by the limit is \<open>remaining\<close> clamped to
  \<open>[0, limit]\<close>, and the percentage it reports lies in \<open>[0, 100]\<close>.
\<close>

theorem remaining_clamped:
  assumes "0 < L"
    and "token_limit conf = Some L \<or>
         (\<not> truthy_num (token_limit conf) \<and> request_limit conf = Some L)"
  shows "\<exists>rem safe b.
           remaining (limit_view conf status) = Some rem
         \<and> safeRemaining (limit_view conf status) = Some safe
         \<and> safe = max 0 (min rem L) \<and> 0 \<le> safe \<and> safe \<le> L
         \<and> percentage_local (limit_view conf status) = percentage_of safe L
         \<and> l_backendStatus (limit_entry conf status) = Some b
         \<and> percentage b = percentage_of safe L
         \<and> 0 \<le> percentage b \<and> percentage b \<le> 100"
proof -
  from assms(1) have nz: "L \<noteq> 0" and nn: "0 \<le> L" by simp_all
  have bounds: "0 \<le> max 0 (min r L) \<and> max 0 (min r L) \<le> L
      \<and> 0 \<le> percentage_of (max 0 (min r L)) L
      \<and> percentage_of (max 0 (min r L)) L \<le> 100" for r
    using assms(1) by (simp add: percentage_of_bounds)
  from assms(2) show ?thesis
  proof
    assume "token_limit conf = Some L"
    from limit_view_tokens [OF this nz, of status]
      bounds [of "remaining_or remaining_tokens status L"]
    show ?thesis by (simp add: entry_backendStatus clamp_remaining_def)
  next
    assume "\<not> truthy_num (token_limit conf) \<and> request_limit conf = Some L"
    then have "\<not> truthy_num (token_limit conf)" "request_limit conf = Some L" by simp_all
    from limit_view_requests [OF this nz, of status]
      bounds [of "remaining_or remaining_requests status L"]
    show ?thesis by (simp add: entry_backendStatus clamp_remaining_def)
  qed
qed

theorem remaining_clamped_witness:
  "(\<exists>rem safe b.
      remaining (limit_view
        \<lparr> conf_id = ''c-1'', provider = Some ''OpenAI'', tier_name = None,
          model_pattern = Some ''gpt-4'', token_limit = Some 50000, request_limit = None,
          reset_strategy = Some ''rolling'', window_minutes = Some 300 \<rparr>
        (Some \<lparr> config_id = ''c-1'', remaining_tokens = Some 61000,
          remaining_requests = None, window_start = None, next_reset = None,
          last_updated = None, reset_anchor_timestamp = None \<rparr>)) = Some rem
    \<and> safeRemaining (limit_view
        \<lparr> conf_id = ''c-1'', provider = Some ''OpenAI'', tier_name = None,
          model_pattern = Some ''gpt-4'', token_limit = Some 50000, request_limit = None,
          reset_strategy = Some ''rolling'', window_minutes = Some 300 \<rparr>
        (Some \<lparr> config_id = ''c-1'', remaining_tokens = Some 61000,
          remaining_requests = None, window_start = None, next_reset = None,
          last_updated = None, reset_anchor_timestamp = None \<rparr>)) = Some safe
    \<and> rem = 61000 \<and> safe = 50000
    \<and> l_backendStatus (limit_entry
        \<lparr> conf_id = ''c-1'', provider = Some ''OpenAI'', tier_name = None,
          model_pattern = Some ''gpt-4'', token_limit = Some 50000, request_limit = None,
          reset_strategy = Some ''rolling'', window_minutes = Some 300 \<rparr>
        (Some \<lparr> config_id = ''c-1'', remaining_tokens = Some 61000,
          remaining_requests = None, window_start = None, next_reset = None,
          last_updated = None, reset_anchor_timestamp = None \<rparr>)) = Some b
    \<and> 0 \<le> percentage b \<and> percentage b \<le> 100)"
  using remaining_clamped [of 50000
        "\<lparr> conf_id = ''c-1'', provider = Some ''OpenAI'', tier_name = None,
          model_pattern = Some ''gpt-4'', token_limit = Some 50000, request_limit = None,
          reset_strategy = Some ''rolling'', window_minutes = Some 300 \<rparr>"
        "Some \<lparr> config_id = ''c-1'', remaining_tokens = Some 61000,
          remaining_requests = None, window_start = None, next_reset = None,
          last_updated = None, reset_anchor_timestamp = None \<rparr>"]
  by (auto simp: limit_view_tokens remaining_or_def)

text \<open>
  Claim C5. A configuration with neither limit set (\<^verbatim>\<open>token_limit\<close> and
  \<^verbatim>\<open>request_limit\<close> each \<^verbatim>\<open>null\<close> or 0) is reported by
  \<^verbatim>\<open>loadRateLimitsConfig\<close> as unlimited: whenever the function returns a structure,
  the entry of that configuration has limit 0, the label \<^verbatim>\<open>Unlimited\<close> and percentage
  exactly 100, whatever the status query returned.
\<close>

theorem unlimited_reports_100:
  assumes "loadRateLimitsConfig (Resolves (configsResult, statusResult)) = Some ui"
    and "data configsResult = Some configs"
    and "conf \<in> set configs"
    and "\<not> truthy_num (token_limit conf)"
    and "\<not> truthy_num (request_limit conf)"
  shows "\<exists>prov p e b.
           provider conf = Some prov
         \<and> providers ui (toLowerCase prov) = Some p
         \<and> e \<in> set (p_limits p)
         \<and> l_id e = JString (conf_id conf)
         \<and> l_limit e = JNumber 0
         \<and> l_backendStatus e = Some b
         \<and> percentage b = 100
         \<and> label b = ''Unlimited''"
proof -
  from loaded_entry [OF assms(1-3)] obtain prov p where
    "provider conf = Some prov" "providers ui (toLowerCase prov) = Some p"
    "limit_entry conf (statusMap (data statusResult) (conf_id conf)) \<in> set (p_limits p)"
    by auto
  moreover note limit_view_unlimited [OF assms(4,5), of "statusMap (data statusResult) (conf_id conf)"]
  ultimately show ?thesis
    by (intro exI [of _ prov] exI [of _ p]
        exI [of _ "limit_entry conf (statusMap (data statusResult) (conf_id conf))"])
       (simp add: entry_backendStatus entry_id_limit)
qed

lemma toLowerCase_OpenAI: "toLowerCase ''OpenAI'' = ''openai''"
  by (simp add: toLowerCase_def toLowerCase_char_def)

theorem unlimited_reports_100_witness:
  "\<exists>ui p e b.
     loadRateLimitsConfig (Resolves
       (\<lparr> data = Some
          [\<lparr> conf_id = ''c-3'', provider = Some ''OpenAI'', tier_name = None,
             model_pattern = None, token_limit = Some 0, request_limit = None,
             reset_strategy = Some ''daily'', window_minutes = Some 1440 \<rparr>],
          error = None \<rparr>,
        \<lparr> data = Some
          [\<lparr> config_id = ''c-3'', remaining_tokens = Some 7,
             remaining_requests = Some (- 3), window_start = None, next_reset = None,
             last_updated = None, reset_anchor_timestamp = None \<rparr>],
          error = None \<rparr>)) = Some ui
   \<and> providers ui ''openai'' = Some p
   \<and> e \<in> set (p_limits p)
   \<and> l_id e = JString ''c-3''
   \<and> l_limit e = JNumber 0
   \<and> l_backendStatus e = Some b
   \<and> percentage b = 100
   \<and> label b = ''Unlimited''"
proof -
  let ?conf = "\<lparr> conf_id = ''c-3'', provider = Some ''OpenAI'', tier_name = None,
             model_pattern = None, token_limit = Some 0, request_limit = None,
             reset_strategy = Some ''daily'', window_minutes = Some 1440 \<rparr>"
  let ?cr = "\<lparr> data = Some [?conf], error = None \<rparr>"
  let ?sr = "\<lparr> data = Some
          [\<lparr> config_id = ''c-3'', remaining_tokens = Some 7,
             remaining_requests = Some (- 3), window_start = None, next_reset = None,
             last_updated = None, reset_anchor_timestamp = None \<rparr>],
          error = None \<rparr>"
  obtain ui where ui: "loadRateLimitsConfig (Resolves (?cr, ?sr)) = Some ui"
    by (simp add: loadRateLimitsConfig_def load_try_def add_config_def toLowerCase_OpenAI
        object_prototype_keys_def)
  from unlimited_reports_100 [OF ui, of "[?conf]" ?conf] ui
  show ?thesis
    by (simp add: truthy_num_def toLowerCase_OpenAI)
qed


text \<open>
  Claim C8. For a configuration with \<^verbatim>\<open>request_limit\<close> 1000 (and no token limit,
  which would take precedence) whose status row has \<^verbatim>\<open>remaining_requests\<close> 400,
  \<^verbatim>\<open>loadRateLimitsConfig\<close> reports percentage 40 and the label
  \<^verbatim>\<open>600 / 1000\<close>.
\<close>

theorem scenario_d_percentage:
  assumes "loadRateLimitsConfig (Resolves (configsResult, statusResult)) = Some ui"
    and "data configsResult = Some configs"
    and "conf \<in> set configs"
    and "\<not> truthy_num (token_limit conf)"
    and "request_limit conf = Some 1000"
    and "statusMap (data statusResult) (conf_id conf) = Some s"
    and "remaining_requests s = Some 400"
  shows "\<exists>prov p e b.
           provider conf = Some prov
         \<and> providers ui (toLowerCase prov) = Some p
         \<and> e \<in> set (p_limits p)
         \<and> l_id e = JString (conf_id conf)
         \<and> l_backendStatus e = Some b
         \<and> percentage b = 40
         \<and> label b = ''600 / 1000''"
proof -
  from loaded_entry [OF assms(1-3)] obtain prov p where
    "provider conf = Some prov" "providers ui (toLowerCase prov) = Some p"
    "limit_entry conf (statusMap (data statusResult) (conf_id conf)) \<in> set (p_limits p)"
    by auto
  moreover have "percentage_of (clamp_remaining 400 1000) 1000 = 40"
    by code_simp
  moreover have "number_to_string (used_of 1000 400) @ '' / '' @ number_to_string 1000
      = ''600 / 1000''"
    by code_simp
  moreover note limit_view_requests [OF assms(4,5), of "Some s"]
  ultimately show ?thesis
    using assms(6,7)
    by (intro exI [of _ prov] exI [of _ p]
        exI [of _ "limit_entry conf (statusMap (data statusResult) (conf_id conf))"])
       (simp add: entry_backendStatus entry_id_limit remaining_or_def)
qed

theorem scenario_d_percentage_witness:
  "\<exists>ui p e b.
     loadRateLimitsConfig (Resolves
       (\<lparr> data = Some
          [\<lparr> conf_id = ''c-2'', provider = Some ''OpenAI'', tier_name = None,
             model_pattern = None, token_limit = None, request_limit = Some 1000,
             reset_strategy = Some ''daily'', window_minutes = Some 1440 \<rparr>],
          error = None \<rparr>,
        \<lparr> data = Some
          [\<lparr> config_id = ''c-2'', remaining_tokens = None,
             remaining_requests = Some 400,
             window_start = Some ''2026-01-05T00:00:00.000Z'',
             next_reset = Some ''2026-01-06T00:00:00.000Z'',
             last_updated = Some ''2026-01-05T13:55:00.000Z'',
             reset_anchor_timestamp = None \<rparr>],
          error = None \<rparr>)) = Some ui
   \<and> providers ui ''openai'' = Some p
   \<and> e \<in> set (p_limits p)
   \<and> l_id e = JString ''c-2''
   \<and> l_backendStatus e = Some b
   \<and> percentage b = 40
   \<and> label b = ''600 / 1000''"
proof -
  let ?conf = "\<lparr> conf_id = ''c-2'', provider = Some ''OpenAI'', tier_name = None,
             model_pattern = None, token_limit = None, request_limit = Some 1000,
             reset_strategy = Some ''daily'', window_minutes = Some 1440 \<rparr>"
  let ?s = "\<lparr> config_id = ''c-2'', remaining_tokens = None,
             remaining_requests = Some 400,
             window_start = Some ''2026-01-05T00:00:00.000Z'',
             next_reset = Some ''2026-01-06T00:00:00.000Z'',
             last_updated = Some ''2026-01-05T13:55:00.000Z'',
             reset_anchor_timestamp = None \<rparr>"
  let ?cr = "\<lparr> data = Some [?conf], error = None \<rparr>"
  let ?sr = "\<lparr> data = Some [?s], error = None \<rparr>"
  obtain ui where ui: "loadRateLimitsConfig (Resolves (?cr, ?sr)) = Some ui"
    by (simp add: loadRateLimitsConfig_def load_try_def add_config_def toLowerCase_OpenAI
        object_prototype_keys_def)
  from scenario_d_percentage [OF ui, of "[?conf]" ?conf ?s] ui
  show ?thesis
    by (simp add: truthy_num_def toLowerCase_OpenAI statusMap_def)
qed

text \<open>
  Claim C9, amended. For a configuration whose limit in force is positive and whose id has
  no row in the status list (also when the status query failed and its \<^verbatim>\<open>data\<close> is
  \<^verbatim>\<open>null\<close>), \<open>remaining\<close> defaults to the full limit, \<open>used\<close> is 0, and the
  entry \<^verbatim>\<open>loadRateLimitsConfig\<close> returns for it reports percentage 100.
\<close>

theorem missing_status_full:
  assumes "loadRateLimitsConfig (Resolves (configsResult, statusResult)) = Some ui"
    and "data configsResult = Some configs"
    and "conf \<in> set configs"
    and "0 < L"
    and "token_limit conf = Some L \<or>
         (\<not> truthy_num (token_limit conf) \<and> request_limit conf = Some L)"
    and "conf_id conf \<notin> config_id `
           set (case data statusResult of None \<Rightarrow> [] | Some rows \<Rightarrow> rows)"
  shows "remaining (limit_view conf None) = Some L
       \<and> used (limit_view conf None) = Some 0
       \<and> (\<exists>prov p e b.
             provider conf = Some prov
           \<and> providers ui (toLowerCase prov) = Some p
           \<and> e \<in> set (p_limits p)
           \<and> e = limit_entry conf None
           \<and> l_id e = JString (conf_id conf)
           \<and> l_backendStatus e = Some b
           \<and> percentage b = 100
           \<and> nextReset b = None)"
proof -
  from assms(6) have none: "statusMap (data statusResult) (conf_id conf) = None"
    by (simp add: statusMap_None)
  from loaded_entry [OF assms(1-3)] none obtain prov p where
    e: "provider conf = Some prov" "providers ui (toLowerCase prov) = Some p"
    "limit_entry conf None \<in> set (p_limits p)"
    by auto
  from assms(4) have nz: "L \<noteq> 0" by simp
  have full: "percentage_of (clamp_remaining L L) L = 100" "used_of L L = 0"
    using assms(4) by (simp_all add: clamp_remaining_def percentage_of_full used_of_def js_sub_self)
  from assms(5) have v: "remaining (limit_view conf None) = Some L
      \<and> used (limit_view conf None) = Some 0
      \<and> percentage_local (limit_view conf None) = 100"
  proof
    assume "token_limit conf = Some L"
    from limit_view_tokens [OF this nz, of None] full
    show ?thesis by (simp add: remaining_or_def)
  next
    assume "\<not> truthy_num (token_limit conf) \<and> request_limit conf = Some L"
    then have "\<not> truthy_num (token_limit conf)" "request_limit conf = Some L" by simp_all
    from limit_view_requests [OF this nz, of None] full
    show ?thesis by (simp add: remaining_or_def)
  qed
  with e show ?thesis
    by (simp add: entry_backendStatus entry_id_limit)
qed


theorem missing_status_full_witness:
  "remaining (limit_view
      \<lparr> conf_id = ''c-1'', provider = Some ''OpenAI'', tier_name = None,
        model_pattern = Some ''gpt-4'', token_limit = Some 50000, request_limit = None,
        reset_strategy = Some ''rolling'', window_minutes = Some 300 \<rparr> None) = Some 50000
   \<and> used (limit_view
      \<lparr> conf_id = ''c-1'', provider = Some ''OpenAI'', tier_name = None,
        model_pattern = Some ''gpt-4'', token_limit = Some 50000, request_limit = None,
        reset_strategy = Some ''rolling'', window_minutes = Some 300 \<rparr> None) = Some 0
   \<and> (\<exists>ui p e b.
       loadRateLimitsConfig (Resolves
         (\<lparr> data = Some
            [\<lparr> conf_id = ''c-1'', provider = Some ''OpenAI'', tier_name = None,
               model_pattern = Some ''gpt-4'', token_limit = Some 50000, request_limit = None,
               reset_strategy = Some ''rolling'', window_minutes = Some 300 \<rparr>],
            error = None \<rparr>,
          \<lparr> data = None, error = Some ''permission denied'' \<rparr>)) = Some ui
     \<and> providers ui ''openai'' = Some p
     \<and> e \<in> set (p_limits p)
     \<and> l_id e = JString ''c-1''
     \<and> l_backendStatus e = Some b
     \<and> percentage b = 100
     \<and> nextReset b = None)"
proof -
  let ?conf = "\<lparr> conf_id = ''c-1'', provider = Some ''OpenAI'', tier_name = None,
        model_pattern = Some ''gpt-4'', token_limit = Some 50000, request_limit = None,
        reset_strategy = Some ''rolling'', window_minutes = Some 300 \<rparr>"
  let ?cr = "\<lparr> data = Some [?conf], error = None \<rparr>"
  let ?sr = "\<lparr> data = None, error = Some ''permission denied'' \<rparr>
               :: rate_limit_status list query_result"
  obtain ui where ui: "loadRateLimitsConfig (Resolves (?cr, ?sr)) = Some ui"
    by (simp add: loadRateLimitsConfig_def load_try_def add_config_def toLowerCase_OpenAI
        object_prototype_keys_def)
  from missing_status_full [OF ui, of "[?conf]" ?conf 50000] ui
  show ?thesis
    by (simp add: toLowerCase_OpenAI) blast
qed

text \<open>
  Claim C9, as stated, fails for a limit that is set but negative: a configuration with
  \<^verbatim>\<open>request_limit\<close> \<open>- 5\<close> and no status row takes the request branch
  (\<open>- 5\<close> is truthy), \<open>remaining\<close> defaults to \<open>- 5\<close>, the clamp gives 0, and the
  reported percentage is 0, not 100.
\<close>

theorem missing_status_counterexample:
  "map_option
     (\<lambda>ui. map_option (\<lambda>p. map (\<lambda>e. map_option percentage (l_backendStatus e)) (p_limits p))
                      (providers ui ''openai''))
     (loadRateLimitsConfig (Resolves
        (\<lparr> data = Some
           [\<lparr> conf_id = ''c-9'', provider = Some ''OpenAI'', tier_name = None,
              model_pattern = None, token_limit = None, request_limit = Some (- 5),
              reset_strategy = Some ''daily'', window_minutes = Some 1440 \<rparr>],
           error = None \<rparr>,
         \<lparr> data = Some [], error = None \<rparr>)))
   = Some (Some [Some 0])
   \<and> (0 :: int) \<noteq> 100"
  by code_simp


text \<open>
  Claim C7. \<^verbatim>\<open>loadRateLimitsConfig\<close> returns \<^verbatim>\<open>null\<close> when the configs query
  returns an error, and whenever an exception is thrown while loading: when
  \<^verbatim>\<open>Promise.all\<close> rejects, when the configs \<^verbatim>\<open>data\<close> is \<^verbatim>\<open>null\<close>, and when
  the loop body throws on some configuration (a \<^verbatim>\<open>null\<close> provider, or a provider
  whose key \<^verbatim>\<open>Object.prototype\<close> supplies), wherever it stands in the list, so also
  after providers have been built for earlier configurations. A result that is not
  \<^verbatim>\<open>null\<close> is never partial: it holds the entry of every configuration.
\<close>

theorem load_null_on_failure:
  "loadRateLimitsConfig Rejects = None
   \<and> (error configsResult \<noteq> None \<longrightarrow>
        loadRateLimitsConfig (Resolves (configsResult, statusResult)) = None)
   \<and> (data configsResult = None \<longrightarrow>
        loadRateLimitsConfig (Resolves (configsResult, statusResult)) = None)
   \<and> (data configsResult = Some configs \<and> c \<in> set configs \<and>
        (case provider c of None \<Rightarrow> True
         | Some prov \<Rightarrow> toLowerCase prov \<in> set object_prototype_keys) \<longrightarrow>
        loadRateLimitsConfig (Resolves (configsResult, statusResult)) = None)
   \<and> (load_try results = Inl e \<longrightarrow> loadRateLimitsConfig results = None)
   \<and> (loadRateLimitsConfig (Resolves (configsResult, statusResult)) = Some ui \<and>
        data configsResult = Some configs \<and> conf \<in> set configs \<longrightarrow>
        (\<exists>prov p. provider conf = Some prov
           \<and> providers ui (toLowerCase prov) = Some p
           \<and> limit_entry conf (statusMap (data statusResult) (conf_id conf))
               \<in> set (p_limits p)))"
proof -
  have 1: "loadRateLimitsConfig Rejects = None"
    by (simp add: loadRateLimitsConfig_def load_try_def)
  have 2: "loadRateLimitsConfig (Resolves (configsResult, statusResult)) = None"
    if "error configsResult \<noteq> None"
    using that by (simp add: loadRateLimitsConfig_def load_try_def)
  have 3: "loadRateLimitsConfig (Resolves (configsResult, statusResult)) = None"
    if "data configsResult = None"
    using that by (simp add: loadRateLimitsConfig_def load_try_def)
  have 4: "loadRateLimitsConfig (Resolves (configsResult, statusResult)) = None"
    if d: "data configsResult = Some configs" and c: "c \<in> set configs"
      and t: "case provider c of None \<Rightarrow> True
              | Some prov \<Rightarrow> toLowerCase prov \<in> set object_prototype_keys"
  proof -
    from t have "provider c = None \<or> toLowerCase (the (provider c)) \<in> set object_prototype_keys"
      by (cases "provider c") simp_all
    with c have "\<exists>e. forEach_config (statusMap (data statusResult)) configs Map.empty = Inl e"
      by (rule forEach_config_throws) simp
    with d show ?thesis
      by (auto simp: loadRateLimitsConfig_def load_try_def)
  qed
  have 5: "loadRateLimitsConfig results = None" if "load_try results = Inl e"
    using that by (simp add: loadRateLimitsConfig_def)
  from 1 2 3 4 5 loaded_entry [of configsResult statusResult ui configs conf]
  show ?thesis by blast
qed

theorem load_null_on_failure_witness:
  "loadRateLimitsConfig
     (Resolves (\<lparr> data = None, error = Some ''permission denied'' \<rparr>,
                \<lparr> data = Some [], error = None \<rparr>)) = None
   \<and> loadRateLimitsConfig
     (Resolves (\<lparr> data = None, error = None \<rparr>,
                \<lparr> data = Some [], error = None \<rparr>)) = None
   \<and> loadRateLimitsConfig
     (Resolves (\<lparr> data = Some
        [\<lparr> conf_id = ''c-1'', provider = Some ''OpenAI'', tier_name = None,
           model_pattern = Some ''gpt-4'', token_limit = Some 50000, request_limit = None,
           reset_strategy = Some ''rolling'', window_minutes = Some 300 \<rparr>,
         \<lparr> conf_id = ''c-4'', provider = None, tier_name = None,
           model_pattern = None, token_limit = None, request_limit = Some 10,
           reset_strategy = Some ''daily'', window_minutes = Some 1440 \<rparr>],
        error = None \<rparr>,
                \<lparr> data = Some [], error = None \<rparr>)) = None
   \<and> load_try Rejects = Inl RequestRejected
   \<and> loadRateLimitsConfig Rejects = None
   \<and> (\<exists>ui p.
        loadRateLimitsConfig
          (Resolves (\<lparr> data = Some
             [\<lparr> conf_id = ''c-1'', provider = Some ''OpenAI'', tier_name = None,
                model_pattern = Some ''gpt-4'', token_limit = Some 50000, request_limit = None,
                reset_strategy = Some ''rolling'', window_minutes = Some 300 \<rparr>],
             error = None \<rparr>,
                     \<lparr> data = Some [], error = None \<rparr>)) = Some ui
      \<and> providers ui ''openai'' = Some p
      \<and> limit_entry
          \<lparr> conf_id = ''c-1'', provider = Some ''OpenAI'', tier_name = None,
            model_pattern = Some ''gpt-4'', token_limit = Some 50000, request_limit = None,
            reset_strategy = Some ''rolling'', window_minutes = Some 300 \<rparr> None
          \<in> set (p_limits p))"
proof -
  let ?c1 = "\<lparr> conf_id = ''c-1'', provider = Some ''OpenAI'', tier_name = None,
           model_pattern = Some ''gpt-4'', token_limit = Some 50000, request_limit = None,
           reset_strategy = Some ''rolling'', window_minutes = Some 300 \<rparr>"
  let ?c4 = "\<lparr> conf_id = ''c-4'', provider = None, tier_name = None,
           model_pattern = None, token_limit = None, request_limit = Some 10,
           reset_strategy = Some ''daily'', window_minutes = Some 1440 \<rparr>"
  let ?sr = "\<lparr> data = Some [], error = None \<rparr> :: rate_limit_status list query_result"
  let ?denied = "\<lparr> data = None, error = Some ''permission denied'' \<rparr>
                   :: rate_limit_config list query_result"
  let ?nodata = "\<lparr> data = None, error = None \<rparr> :: rate_limit_config list query_result"
  let ?bad = "\<lparr> data = Some [?c1, ?c4], error = None \<rparr>"
  let ?good = "\<lparr> data = Some [?c1], error = None \<rparr>"
  have a: "loadRateLimitsConfig (Resolves (?denied, ?sr)) = None"
    using load_null_on_failure [of ?denied ?sr] by simp
  have b: "loadRateLimitsConfig (Resolves (?nodata, ?sr)) = None"
    using load_null_on_failure [of ?nodata ?sr] by simp
  have c: "loadRateLimitsConfig (Resolves (?bad, ?sr)) = None"
    using load_null_on_failure [of ?bad ?sr "[?c1, ?c4]" ?c4] by simp
  have d: "load_try Rejects = Inl RequestRejected"
    by (simp add: load_try_def)
  with load_null_on_failure [of _ _ _ _ Rejects RequestRejected]
  have d': "loadRateLimitsConfig Rejects = None" by simp
  obtain ui where ui: "loadRateLimitsConfig (Resolves (?good, ?sr)) = Some ui"
    by (simp add: loadRateLimitsConfig_def load_try_def add_config_def toLowerCase_OpenAI
        object_prototype_keys_def)
  with load_null_on_failure [of ?good ?sr "[?c1]" ?c1 _ _ ui ?c1]
  have e: "\<exists>p. providers ui ''openai'' = Some p
      \<and> limit_entry ?c1 None \<in> set (p_limits p)"
    by (simp add: toLowerCase_OpenAI statusMap_def)
  from a b c d d' e ui show ?thesis by blast
qed

section \<open>Properties of saveConfig\<close>

lemma upsertData_row:
  assumes "row \<in> set (upsertData entries)"
  shows "\<exists>providerKey prov lmt. (providerKey, prov) \<in> set entries \<and> lmt \<in> set (p_limits prov)
           \<and> row = save_row providerKey lmt"
  using assms by (auto simp: upsertData_def)

lemma saveConfig_upsert:
  assumes "Upsert rows \<in> set (saveConfig currentRows delete_rejects newConfig)"
  shows "\<exists>nc entries. newConfig = Some nc \<and> nc_providers nc = Some entries
           \<and> rows = map json_row (upsertData entries)"
proof (cases newConfig)
  case None
  with assms show ?thesis by (simp add: saveConfig_def)
next
  case (Some nc)
  show ?thesis
  proof (cases "nc_providers nc")
    case None
    with Some assms show ?thesis by (simp add: saveConfig_def)
  next
    case entries: (Some entries)
    show ?thesis
    proof (cases currentRows)
      case Rejects
      with Some entries assms show ?thesis by (simp add: saveConfig_def)
    next
      case (Resolves res)
      with Some entries assms have "rows = map json_row (upsertData entries)"
        by (simp add: saveConfig_def Let_def split: if_splits)
      with Some entries show ?thesis by simp
    qed
  qed
qed

text \<open>
  Claim C6, as stated, fails for a limit whose \<^verbatim>\<open>limit.limit\<close> does not parse:
  \<^verbatim>\<open>parseInt('abc')\<close> is \<^verbatim>\<open>NaN\<close>, the request body has \<^verbatim>\<open>null\<close> in its place,
  and the row \<^verbatim>\<open>saveConfig\<close> sends for that limit (unit \<^verbatim>\<open>requests\<close>) has
  \<^verbatim>\<open>token_limit\<close> and \<^verbatim>\<open>request_limit\<close> both \<^verbatim>\<open>null\<close>.
\<close>

theorem saved_row_counterexample:
  "saveConfig (Resolves \<lparr> data = Some [], error = None \<rparr>) False
     (Some \<lparr> nc_providers = Some [(''openai'',
        \<lparr> p_name = ''OpenAI'', p_icon = Robot, p_enabled = True,
          p_limits =
            [\<lparr> l_id = JString ''limit_1700000000'', l_name = ''All Models'',
               l_limit = JString ''abc'', l_unit = ''requests'',
               l_resetType = Some ''daily'', l_windowHours = None,
               l_resetTime = ''00:00'', l_backendStatus = None \<rparr>] \<rparr>)] \<rparr>)
   = [Upsert
       [\<lparr> s_provider = ''OpenAI'', s_tier_name = [], s_model_pattern = ''All Models'',
          s_reset_strategy = Some ''daily'', s_window_minutes = 60,
          s_token_limit = None, s_request_limit = None, s_id = None \<rparr>]]"
  by code_simp

text \<open>
  Claim C6, amended. Every row \<^verbatim>\<open>saveConfig\<close> sends in its upsert is built from one
  limit of the new configuration, and when \<^verbatim>\<open>parseInt(limit.limit)\<close> is a finite
  number \<open>n\<close> the row has exactly one of \<^verbatim>\<open>token_limit\<close> and \<^verbatim>\<open>request_limit\<close>
  different from \<^verbatim>\<open>null\<close>: when the limit's unit is \<^verbatim>\<open>tokens\<close>,
  \<^verbatim>\<open>token_limit\<close> is \<open>n\<close> and \<^verbatim>\<open>request_limit\<close> is \<^verbatim>\<open>null\<close>; otherwise
  \<^verbatim>\<open>request_limit\<close> is \<open>n\<close> and \<^verbatim>\<open>token_limit\<close> is \<^verbatim>\<open>null\<close>.
\<close>

theorem saved_row_one_limit:
  assumes "Upsert rows \<in> set (saveConfig currentRows delete_rejects newConfig)"
    and "row \<in> set rows"
  shows "\<exists>nc entries providerKey prov lmt.
           newConfig = Some nc \<and> nc_providers nc = Some entries
         \<and> (providerKey, prov) \<in> set entries \<and> lmt \<in> set (p_limits prov)
         \<and> row = json_row (save_row providerKey lmt)
         \<and> (\<forall>n. parseInt (l_limit lmt) = Num n \<longrightarrow>
               (l_unit lmt = ''tokens'' \<longrightarrow>
                  s_token_limit row = Some n \<and> s_request_limit row = None)
             \<and> (l_unit lmt \<noteq> ''tokens'' \<longrightarrow>
                  s_request_limit row = Some n \<and> s_token_limit row = None)
             \<and> (s_token_limit row = None) \<noteq> (s_request_limit row = None))"
proof -
  from saveConfig_upsert [OF assms(1)] obtain nc entries where
    nc: "newConfig = Some nc" "nc_providers nc = Some entries"
        "rows = map json_row (upsertData entries)"
    by auto
  with assms(2) obtain r where "r \<in> set (upsertData entries)" "row = json_row r"
    by auto
  with upsertData_row [of r entries] obtain providerKey prov lmt where
    r: "(providerKey, prov) \<in> set entries" "lmt \<in> set (p_limits prov)"
       "row = json_row (save_row providerKey lmt)"
    by auto
  have "\<forall>n. parseInt (l_limit lmt) = Num n \<longrightarrow>
           (l_unit lmt = ''tokens'' \<longrightarrow>
              s_token_limit (json_row (save_row providerKey lmt)) = Some n
            \<and> s_request_limit (json_row (save_row providerKey lmt)) = None)
         \<and> (l_unit lmt \<noteq> ''tokens'' \<longrightarrow>
              s_request_limit (json_row (save_row providerKey lmt)) = Some n
            \<and> s_token_limit (json_row (save_row providerKey lmt)) = None)
         \<and> (s_token_limit (json_row (save_row providerKey lmt)) = None)
             \<noteq> (s_request_limit (json_row (save_row providerKey lmt)) = None)"
    by (auto simp: save_row_def json_row_def json_number_def)
  with nc r show ?thesis by blast
qed

theorem saved_row_one_limit_witness:
  "Upsert
     [\<lparr> s_provider = ''OpenAI'', s_tier_name = [], s_model_pattern = ''gpt-4'',
        s_reset_strategy = Some ''rolling'', s_window_minutes = 300,
        s_token_limit = Some 50000, s_request_limit = None,
        s_id = Some (JString ''c-1'') \<rparr>,
      \<lparr> s_provider = ''OpenAI'', s_tier_name = [], s_model_pattern = ''All Models'',
        s_reset_strategy = Some ''daily'', s_window_minutes = 60,
        s_token_limit = None, s_request_limit = Some 1000,
        s_id = None \<rparr>]
     \<in> set (saveConfig (Resolves \<lparr> data = Some [''c-1'', ''c-2''], error = None \<rparr>) False
        (Some \<lparr> nc_providers = Some [(''openai'',
           \<lparr> p_name = ''OpenAI'', p_icon = Robot, p_enabled = True,
             p_limits =
               [\<lparr> l_id = JString ''c-1'', l_name = ''gpt-4'', l_limit = JString ''50000'',
                  l_unit = ''tokens'', l_resetType = Some ''rolling'', l_windowHours = Some 5,
                  l_resetTime = ''00:00'', l_backendStatus = None \<rparr>,
                \<lparr> l_id = JString ''limit_1700000000'', l_name = ''All Models'',
                  l_limit = JNumber 1000, l_unit = ''requests'',
                  l_resetType = Some ''daily'', l_windowHours = None,
                  l_resetTime = ''00:00'', l_backendStatus = None \<rparr>] \<rparr>)] \<rparr>))
   \<and> parseInt (JString ''50000'') = Num 50000
   \<and> parseInt (JNumber 1000) = Num 1000
   \<and> (s_token_limit
        \<lparr> s_provider = ''OpenAI'', s_tier_name = [], s_model_pattern = ''gpt-4'',
          s_reset_strategy = Some ''rolling'', s_window_minutes = 300,
          s_token_limit = Some 50000, s_request_limit = None,
          s_id = Some (JString ''c-1'') \<rparr> = None)
     \<noteq> (s_request_limit
        \<lparr> s_provider = ''OpenAI'', s_tier_name = [], s_model_pattern = ''gpt-4'',
          s_reset_strategy = Some ''rolling'', s_window_minutes = 300,
          s_token_limit = Some 50000, s_request_limit = None,
          s_id = Some (JString ''c-1'') \<rparr> = None)"
proof -
  let ?r1 = "\<lparr> s_provider = ''OpenAI'', s_tier_name = [], s_model_pattern = ''gpt-4'',
        s_reset_strategy = Some ''rolling'', s_window_minutes = 300,
        s_token_limit = Some 50000, s_request_limit = None,
        s_id = Some (JString ''c-1'') \<rparr>"
  let ?r2 = "\<lparr> s_provider = ''OpenAI'', s_tier_name = [], s_model_pattern = ''All Models'',
        s_reset_strategy = Some ''daily'', s_window_minutes = 60,
        s_token_limit = None, s_request_limit = Some 1000,
        s_id = None \<rparr>"
  have mem: "Upsert [?r1, ?r2]
     \<in> set (saveConfig (Resolves \<lparr> data = Some [''c-1'', ''c-2''], error = None \<rparr>) False
        (Some \<lparr> nc_providers = Some [(''openai'',
           \<lparr> p_name = ''OpenAI'', p_icon = Robot, p_enabled = True,
             p_limits =
               [\<lparr> l_id = JString ''c-1'', l_name = ''gpt-4'', l_limit = JString ''50000'',
                  l_unit = ''tokens'', l_resetType = Some ''rolling'', l_windowHours = Some 5,
                  l_resetTime = ''00:00'', l_backendStatus = None \<rparr>,
                \<lparr> l_id = JString ''limit_1700000000'', l_name = ''All Models'',
                  l_limit = JNumber 1000, l_unit = ''requests'',
                  l_resetType = Some ''daily'', l_windowHours = None,
                  l_resetTime = ''00:00'', l_backendStatus = None \<rparr>] \<rparr>)] \<rparr>))"
    by code_simp
  have p1: "parseInt (JString ''50000'') = Num 50000" by code_simp
  have p2: "parseInt (JNumber 1000) = Num 1000" by code_simp
  from saved_row_one_limit [OF mem, of ?r1]
  have "(s_token_limit ?r1 = None) \<noteq> (s_request_limit ?r1 = None)"
    by auto
  with mem p1 p2 show ?thesis by simp
qed

lemma window_minutes_exact:
  assumes "0 < h" "h * 60 \<le> 2 ^ 53"
  shows "window_minutes_of (Some h) = h * 60"
proof -
  from assms have "\<bar>h * 60\<bar> \<le> 2 ^ 53" by simp
  then have "fl64 (of_int (h * 60)) = of_int (h * 60)" by (rule fl64_of_int_exact)
  then have "js_mul (of_int h) 60 = of_int (h * 60)" by (simp add: js_mul_def)
  with assms(1) show ?thesis
    by (simp add: window_minutes_of_def del: of_int_mult)
qed

lemma windowHours_exact:
  assumes "0 < h" "h * 60 \<le> 2 ^ 53"
  shows "windowHours_of (Some (h * 60)) = h"
proof -
  from assms have "\<bar>h\<bar> \<le> 2 ^ 53" by simp
  then have "fl64 (of_int h) = of_int h" by (rule fl64_of_int_exact)
  then have "js_div (of_int (h * 60)) 60 = of_int h" by (simp add: js_div_def)
  then show ?thesis
    by (simp only: windowHours_of_def option.case Math_round_of_int)
qed

text \<open>
  Claim C10, amended. For a limit whose \<^verbatim>\<open>windowHours\<close> is a positive integer \<open>h\<close>
  with \<open>h * 60 \<le> 2 ^ 53\<close> (the range in which a JavaScript number holds every integer
  exactly), \<^verbatim>\<open>saveConfig\<close> stores \<open>window_minutes = h * 60\<close>, and
  \<^verbatim>\<open>loadRateLimitsConfig\<close> maps a configuration holding that value back to
  \<^verbatim>\<open>windowHours\<close> \<open>h\<close>.
\<close>

theorem window_roundtrip:
  assumes "0 < h" and "h * 60 \<le> 2 ^ 53"
    and "l_windowHours lmt = Some h"
    and "window_minutes conf = Some (r_window_minutes (save_row providerKey lmt))"
  shows "r_window_minutes (save_row providerKey lmt) = h * 60
       \<and> l_windowHours (limit_entry conf status) = Some h"
proof -
  from assms(1-3) have m: "r_window_minutes (save_row providerKey lmt) = h * 60"
    by (simp add: save_row_def window_minutes_exact)
  with assms(4) have "window_minutes conf = Some (h * 60)" by simp
  then have "l_windowHours (limit_entry conf status) = Some h"
    using assms(1,2) by (simp add: limit_entry_def Let_def windowHours_exact)
  with m show ?thesis by simp
qed

theorem window_roundtrip_witness:
  "r_window_minutes (save_row ''openai''
      \<lparr> l_id = JString ''c-1'', l_name = ''gpt-4'', l_limit = JNumber 50000,
        l_unit = ''tokens'', l_resetType = Some ''rolling'', l_windowHours = Some 5,
        l_resetTime = ''00:00'', l_backendStatus = None \<rparr>) = 300
   \<and> l_windowHours (limit_entry
      \<lparr> conf_id = ''c-1'', provider = Some ''OpenAI'', tier_name = Some [],
        model_pattern = Some ''gpt-4'', token_limit = Some 50000, request_limit = None,
        reset_strategy = Some ''rolling'', window_minutes = Some 300 \<rparr> None) = Some 5"
proof -
  let ?lmt = "\<lparr> l_id = JString ''c-1'', l_name = ''gpt-4'', l_limit = JNumber 50000,
        l_unit = ''tokens'', l_resetType = Some ''rolling'', l_windowHours = Some 5,
        l_resetTime = ''00:00'', l_backendStatus = None \<rparr>"
  let ?conf = "\<lparr> conf_id = ''c-1'', provider = Some ''OpenAI'', tier_name = Some [],
        model_pattern = Some ''gpt-4'', token_limit = Some 50000, request_limit = None,
        reset_strategy = Some ''rolling'', window_minutes = Some 300 \<rparr>"
  have m: "r_window_minutes (save_row ''openai'' ?lmt) = 300"
    using window_roundtrip [of 5 ?lmt "?conf\<lparr> window_minutes :=
        Some (r_window_minutes (save_row ''openai'' ?lmt)) \<rparr>" "''openai''" None]
    by simp
  with window_roundtrip [of 5 ?lmt ?conf "''openai''" None]
  show ?thesis by simp
qed

text \<open>
  Claim C10, as stated for every positive integer, fails beyond that range: for
  \<open>h = 6755399441055752\<close> (below \<open>2 ^ 53\<close>, so a JavaScript integer) the product
  \<open>h * 60 = 405323966463345120\<close> is not a binary64 value and rounds to
  \<open>405323966463345152\<close>, which is stored; dividing it by 60 and rounding gives
  \<open>h + 1\<close>.
\<close>

theorem window_roundtrip_counterexample:
  "r_window_minutes (save_row ''openai''
      \<lparr> l_id = JString ''c-1'', l_name = ''gpt-4'', l_limit = JNumber 50000,
        l_unit = ''tokens'', l_resetType = Some ''rolling'',
        l_windowHours = Some 6755399441055752,
        l_resetTime = ''00:00'', l_backendStatus = None \<rparr>) = 405323966463345152
   \<and> l_windowHours (limit_entry
      \<lparr> conf_id = ''c-1'', provider = Some ''OpenAI'', tier_name = Some [],
        model_pattern = Some ''gpt-4'', token_limit = Some 50000, request_limit = None,
        reset_strategy = Some ''rolling'',
        window_minutes = Some 405323966463345152 \<rparr> None) = Some 6755399441055753
   \<and> (6755399441055752 :: int) * 60 \<noteq> 405323966463345152
   \<and> (6755399441055753 :: int) \<noteq> 6755399441055752"
proof -
  have a: "window_minutes_of (Some 6755399441055752) = 405323966463345152"
    by code_simp
  have b: "windowHours_of (Some 405323966463345152) = 6755399441055753"
    by code_simp
  show ?thesis
    by (simp add: save_row_def limit_entry_def Let_def a b)
qed

end
